theory Spec2Isabelle
  imports Complex_Main "HOL-Library.AList" "HOL-Library.Monad_Syntax"
begin

section \<open>JavaScript values\<close>

text \<open>
  The adapters read JSON that arrives over HTTP, so every input is a dynamically typed
  value. A number is a rational, \<open>NaN\<close> or one of the two infinities: every finite
  binary64 value is a rational, and the two zeros are one value (the code never divides
  by a number, and prints no zero that could be negative). A number that the code
  computes from a string is rounded to binary64 (\<open>round64\<close> below). A string is a list
  of code units; a \<open>char\<close> stands for a code unit in the range 0..255. An object is an
  association list from property names to values, read with \<open>map_of\<close>.
  A thrown exception is the value \<open>None\<close> of an option type.
\<close>

datatype jsnum = NaN | NInf | Fin rat | PInf

datatype jsval =
    Undefined
  | Null
  | JBool bool
  | JNum jsnum
  | JStr string
  | JArr "jsval list"
  | JObj "(string \<times> jsval) list"

text \<open>ToBoolean.\<close>

fun truthy :: "jsval \<Rightarrow> bool" where
  "truthy Undefined = False"
| "truthy Null = False"
| "truthy (JBool b) = b"
| "truthy (JNum n) = (n \<noteq> NaN \<and> n \<noteq> Fin 0)"
| "truthy (JStr s) = (s \<noteq> [])"
| "truthy (JArr xs) = True"
| "truthy (JObj kvs) = True"

text \<open>\<open>a || b\<close> on values.\<close>

definition js_or :: "jsval \<Rightarrow> jsval \<Rightarrow> jsval" where
  "js_or a b = (if truthy a then a else b)"

text \<open>
  \<open>a === b\<close> where \<open>b\<close> is a primitive constant, the only way the code uses strict
  equality. Arrays and objects are equal to no primitive; \<open>NaN\<close> is equal to nothing.
\<close>

fun strict_eq :: "jsval \<Rightarrow> jsval \<Rightarrow> bool" where
  "strict_eq (JNum x) (JNum y) = (x = y \<and> x \<noteq> NaN)"
| "strict_eq (JArr xs) b = False"
| "strict_eq (JObj kvs) b = False"
| "strict_eq a b = (a = b)"

text \<open>
  Reading a named property. None of the names the code reads is a member of a built-in
  prototype, except \<open>length\<close> on arrays and strings. Reading a property of
  \<open>undefined\<close> or \<open>null\<close> throws a TypeError.
\<close>

fun js_prop :: "jsval \<Rightarrow> string \<Rightarrow> jsval" where
  "js_prop (JObj kvs) k = (case map_of kvs k of Some v \<Rightarrow> v | None \<Rightarrow> Undefined)"
| "js_prop (JArr xs) k = (if k = ''length'' then JNum (Fin (of_nat (length xs))) else Undefined)"
| "js_prop (JStr s) k = (if k = ''length'' then JNum (Fin (of_nat (length s))) else Undefined)"
| "js_prop v k = Undefined"

definition get :: "jsval \<Rightarrow> string \<Rightarrow> jsval option" where
  "get v k = (if v = Undefined \<or> v = Null then None else Some (js_prop v k))"

text \<open>Decimal digits of a natural number, and of an integer.\<close>

fun show_nat :: "nat \<Rightarrow> string" where
  "show_nat n =
     (if n < 10 then [''0123456789'' ! n]
      else show_nat (n div 10) @ [''0123456789'' ! (n mod 10)])"

declare show_nat.simps [simp del]

definition show_int :: "int \<Rightarrow> string" where
  "show_int i = (if i < 0 then CHR ''-'' # show_nat (nat (- i)) else show_nat (nat i))"

text \<open>
  Reading element \<open>i\<close>: \<open>v[i]\<close>. On an array it is the element or \<open>undefined\<close>, on a
  string the one-character string, on an object the property named by the digits of
  \<open>i\<close>.
\<close>

fun index_prop :: "jsval \<Rightarrow> nat \<Rightarrow> jsval" where
  "index_prop (JArr xs) i = (if i < length xs then xs ! i else Undefined)"
| "index_prop (JStr s) i = (if i < length s then JStr [s ! i] else Undefined)"
| "index_prop (JObj kvs) i = (case map_of kvs (show_nat i) of Some v \<Rightarrow> v | None \<Rightarrow> Undefined)"
| "index_prop v i = Undefined"

definition get_index :: "jsval \<Rightarrow> nat \<Rightarrow> jsval option" where
  "get_index v i = (if v = Undefined \<or> v = Null then None else Some (index_prop v i))"

subsection \<open>Numbers\<close>

text \<open>The relational operators; every comparison with \<open>NaN\<close> is false.\<close>

fun num_le :: "jsnum \<Rightarrow> jsnum \<Rightarrow> bool" where
  "num_le NaN y = False"
| "num_le x NaN = False"
| "num_le NInf y = True"
| "num_le x PInf = True"
| "num_le (Fin a) (Fin b) = (a \<le> b)"
| "num_le x y = False"

fun num_lt :: "jsnum \<Rightarrow> jsnum \<Rightarrow> bool" where
  "num_lt NaN y = False"
| "num_lt x NaN = False"
| "num_lt (Fin a) (Fin b) = (a < b)"
| "num_lt NInf y = (y \<noteq> NInf)"
| "num_lt x PInf = (x \<noteq> PInf)"
| "num_lt x y = False"

fun num_neg :: "jsnum \<Rightarrow> jsnum" where
  "num_neg NaN = NaN"
| "num_neg NInf = PInf"
| "num_neg PInf = NInf"
| "num_neg (Fin a) = Fin (- a)"

text \<open>
  Addition and subtraction, without rounding. The code subtracts two levels to compare
  them, where only the sign of the difference and whether it is \<open>NaN\<close> are used (the
  rounded difference of two binary64 values has the sign of the exact one), and it adds
  and subtracts the years, months and days of two dates, which are small integers.
\<close>

fun num_add :: "jsnum \<Rightarrow> jsnum \<Rightarrow> jsnum" where
  "num_add NaN y = NaN"
| "num_add x NaN = NaN"
| "num_add (Fin a) (Fin b) = Fin (a + b)"
| "num_add PInf NInf = NaN"
| "num_add NInf PInf = NaN"
| "num_add PInf y = PInf"
| "num_add NInf y = NInf"
| "num_add x PInf = PInf"
| "num_add x NInf = NInf"

definition num_sub :: "jsnum \<Rightarrow> jsnum \<Rightarrow> jsnum" where
  "num_sub x y = num_add x (num_neg y)"

text \<open>
  Rounding to binary64: to the nearest value with 53 significant bits, a tie to the
  even one, with the exponent of the subnormal numbers as the lower limit; a result of
  \<open>2 ^ 1024\<close> or more is an infinity. \<open>bit_length n\<close> is the number of binary digits
  of a positive integer, \<open>binary_exponent x\<close> the exponent \<open>e\<close> with
  \<open>2 ^ e \<le> x < 2 ^ (e + 1)\<close> of a positive rational, and \<open>pow2 e\<close> is \<open>2 ^ e\<close>
  for an integer \<open>e\<close>.
\<close>

function bit_length :: "int \<Rightarrow> nat" where
  "bit_length n = (if n \<le> 0 then 0 else Suc (bit_length (n div 2)))"
  by auto

termination
  by (relation "measure nat") auto

declare bit_length.simps [simp del]

definition binary_exponent :: "rat \<Rightarrow> int" where
  "binary_exponent x =
     (if 1 \<le> x then int (bit_length \<lfloor>x\<rfloor>) - 1
      else - int (bit_length (\<lceil>1 / x\<rceil> - 1)))"

definition round_half_even :: "rat \<Rightarrow> int" where
  "round_half_even x =
     (let f = \<lfloor>x\<rfloor>; r = x - of_int f
      in if r < 1 / 2 then f
         else if 1 / 2 < r then f + 1
         else if even f then f else f + 1)"

definition pow2 :: "int \<Rightarrow> rat" where
  "pow2 e = (if 0 \<le> e then of_int (2 ^ nat e) else 1 / of_int (2 ^ nat (- e)))"

definition round64_pos :: "rat \<Rightarrow> jsnum" where
  "round64_pos x =
     (let e = max (binary_exponent x) (- 1022);
          ulp = pow2 (e - 52);
          y = of_int (round_half_even (x / ulp)) * ulp
      in if pow2 1024 \<le> y then PInf else Fin y)"

definition round64 :: "rat \<Rightarrow> jsnum" where
  "round64 x =
     (if x = 0 then Fin 0
      else if 0 < x then round64_pos x
      else num_neg (round64_pos (- x)))"

subsection \<open>Strings\<close>

text \<open>White space and line terminators among the code units 0..255.\<close>

definition js_ws :: "char \<Rightarrow> bool" where
  "js_ws c = (c \<in> set [CHR 0x09, CHR 0x0A, CHR 0x0B, CHR 0x0C, CHR 0x0D, CHR 0x20, CHR 0xA0])"

definition trim :: "string \<Rightarrow> string" where
  "trim s = rev (dropWhile js_ws (rev (dropWhile js_ws s)))"

text \<open>\<open>s.split(c)\<close> for a one-character separator: never empty, \<open>''''\<close> gives \<open>['''']\<close>.\<close>

fun split_on :: "char \<Rightarrow> string \<Rightarrow> string list" where
  "split_on c [] = [[]]"
| "split_on c (x # xs) =
     (if x = c then [] # split_on c xs
      else (case split_on c xs of w # ws \<Rightarrow> (x # w) # ws | [] \<Rightarrow> [[x]]))"

definition is_digit :: "char \<Rightarrow> bool" where
  "is_digit c = (c \<in> set ''0123456789'')"

definition digit_val :: "char \<Rightarrow> int" where
  "digit_val c = of_char c - 48"

definition digits_val :: "string \<Rightarrow> int" where
  "digits_val ds = foldl (\<lambda>acc c. 10 * acc + digit_val c) 0 ds"

text \<open>
  \<open>parseInt(s, 10)\<close>: leading white space, an optional sign, then the longest run of
  decimal digits; \<open>NaN\<close> when there is no digit. The integer is rounded to binary64.
\<close>

definition parseInt :: "string \<Rightarrow> jsnum" where
  "parseInt s =
     (let t = dropWhile js_ws s;
          neg = (t \<noteq> [] \<and> hd t = CHR ''-'');
          u = (if t \<noteq> [] \<and> (hd t = CHR ''-'' \<or> hd t = CHR ''+'') then tl t else t);
          ds = takeWhile is_digit u
      in if ds = [] then NaN
         else round64 (if neg then - of_int (digits_val ds) else of_int (digits_val ds)))"

text \<open>
  \<open>Number(s)\<close> on a string (StringToNumber): white space is trimmed, the empty string is
  0, then a signed decimal literal with optional fraction and exponent, a signed
  \<open>Infinity\<close>, or an unsigned \<open>0x\<close>, \<open>0o\<close> or \<open>0b\<close> integer; anything else is
  \<open>NaN\<close>. The value of the literal is rounded to binary64, so a long literal loses
  digits, a large one is an infinity and a tiny one is 0. (The language lets an engine
  drop the digits after the twentieth significant one before it rounds; the engines in
  use round the exact value, and so does the model.)
\<close>

definition radix_digit :: "nat \<Rightarrow> char \<Rightarrow> nat option" where
  "radix_digit r c =
     (let v = (if c \<in> set ''0123456789'' then Some (of_char c - 48)
               else if c \<in> set ''abcdef'' then Some (of_char c - 87)
               else if c \<in> set ''ABCDEF'' then Some (of_char c - 55)
               else None)
      in case v of Some d \<Rightarrow> (if d < r then Some d else None) | None \<Rightarrow> None)"

fun radix_val :: "nat \<Rightarrow> int \<Rightarrow> string \<Rightarrow> int option" where
  "radix_val r acc [] = Some acc"
| "radix_val r acc (c # cs) =
     (case radix_digit r c of Some d \<Rightarrow> radix_val r (int r * acc + int d) cs | None \<Rightarrow> None)"

definition radix_literal :: "nat \<Rightarrow> string \<Rightarrow> jsnum" where
  "radix_literal r ds =
     (if ds = [] then NaN
      else (case radix_val r 0 ds of Some n \<Rightarrow> round64 (of_int n) | None \<Rightarrow> NaN))"

definition exponent_part :: "string \<Rightarrow> int option" where
  "exponent_part r =
     (if r = [] then Some 0
      else if hd r = CHR ''e'' \<or> hd r = CHR ''E'' then
        (let u = tl r;
             neg = (u \<noteq> [] \<and> hd u = CHR ''-'');
             ds = (if u \<noteq> [] \<and> (hd u = CHR ''-'' \<or> hd u = CHR ''+'') then tl u else u)
         in if ds \<noteq> [] \<and> list_all is_digit ds
            then Some (if neg then - digits_val ds else digits_val ds)
            else None)
      else None)"

definition scale10 :: "rat \<Rightarrow> int \<Rightarrow> rat" where
  "scale10 m e = (if 0 \<le> e then m * 10 ^ nat e else m / 10 ^ nat (- e))"

definition unsigned_decimal :: "string \<Rightarrow> rat option" where
  "unsigned_decimal u =
     (let ip = takeWhile is_digit u;
          r1 = dropWhile is_digit u;
          dot = (r1 \<noteq> [] \<and> hd r1 = CHR ''.'');
          fp = (if dot then takeWhile is_digit (tl r1) else []);
          r2 = (if dot then dropWhile is_digit (tl r1) else r1)
      in if ip = [] \<and> fp = [] then None
         else (case exponent_part r2 of
                 None \<Rightarrow> None
               | Some e \<Rightarrow> Some (scale10 (of_int (digits_val (ip @ fp))) (e - int (length fp)))))"

definition StringToNumber :: "string \<Rightarrow> jsnum" where
  "StringToNumber s =
     (let t = trim s in
      if t = [] then Fin 0
      else if take 2 t = ''0x'' \<or> take 2 t = ''0X'' then radix_literal 16 (drop 2 t)
      else if take 2 t = ''0o'' \<or> take 2 t = ''0O'' then radix_literal 8 (drop 2 t)
      else if take 2 t = ''0b'' \<or> take 2 t = ''0B'' then radix_literal 2 (drop 2 t)
      else
        (let neg = (hd t = CHR ''-'');
             u = (if hd t = CHR ''-'' \<or> hd t = CHR ''+'' then tl t else t)
         in if u = ''Infinity'' then (if neg then NInf else PInf)
            else (case unsigned_decimal u of
                    None \<Rightarrow> NaN
                  | Some q \<Rightarrow> round64 (if neg then - q else q))))"

subsection \<open>Dates\<close>

text \<open>
  A Date object read through \<open>getFullYear\<close>, \<open>getMonth\<close> (0-based) and \<open>getDate\<close> in
  local time. An Invalid Date answers \<open>NaN\<close> to all three.
\<close>

datatype jsdate = InvalidDate | DateYMD int int int

fun getFullYear :: "jsdate \<Rightarrow> jsnum" where
  "getFullYear InvalidDate = NaN"
| "getFullYear (DateYMD y m d) = Fin (of_int y)"

fun getMonth :: "jsdate \<Rightarrow> jsnum" where
  "getMonth InvalidDate = NaN"
| "getMonth (DateYMD y m d) = Fin (of_int m)"

fun getDate :: "jsdate \<Rightarrow> jsnum" where
  "getDate InvalidDate = NaN"
| "getDate (DateYMD y m d) = Fin (of_int d)"

subsection \<open>What the engine and the clock decide\<close>

text \<open>
  The built-ins whose result the language leaves to the implementation, or that depend
  on the clock, the time zone or the objects' prototypes, are parameters of the model:
  the conversion of an array or object to a number or to a string (either may throw),
  the digits of a number that is not a small integer, \<open>Date.parse\<close> and the calendar
  normalisation of \<open>new Date(y, m, d)\<close>, the current date with its \<open>de-DE\<close> text, and
  what \<open>sort\<close> does with a comparator that is not consistent: \<open>sort_rank\<close> gives a
  rank to every index of the array, or nothing when the call throws.
\<close>

record engine =
  obj_to_number :: "jsval \<Rightarrow> jsnum option"
  obj_to_string :: "jsval \<Rightarrow> string option"
  sort_rank :: "(jsval \<Rightarrow> jsval \<Rightarrow> jsnum option) \<Rightarrow> jsval list \<Rightarrow> (nat \<Rightarrow> nat) option"
  frac_to_string :: "rat \<Rightarrow> string"
  Date_parse :: "string \<Rightarrow> jsdate"
  Date_of_obj :: "jsval \<Rightarrow> jsdate option"
  Date_ymd :: "rat \<Rightarrow> rat \<Rightarrow> rat \<Rightarrow> jsdate"
  now_year :: int
  now_month :: int
  now_day :: int
  today_de :: string

text \<open>\<open>Number(v)\<close> (ToNumber).\<close>

fun Number_js :: "engine \<Rightarrow> jsval \<Rightarrow> jsnum option" where
  "Number_js eng Undefined = Some NaN"
| "Number_js eng Null = Some (Fin 0)"
| "Number_js eng (JBool b) = Some (Fin (if b then 1 else 0))"
| "Number_js eng (JNum n) = Some n"
| "Number_js eng (JStr s) = Some (StringToNumber s)"
| "Number_js eng v = obj_to_number eng v"

text \<open>\<open>n || 0\<close> on a number.\<close>

definition num_or0 :: "jsnum \<Rightarrow> jsnum" where
  "num_or0 n = (if n = NaN \<or> n = Fin 0 then Fin 0 else n)"

text \<open>ToString, as a template literal applies it.\<close>

definition num_to_string :: "engine \<Rightarrow> jsnum \<Rightarrow> string" where
  "num_to_string eng n =
     (case n of
        NaN \<Rightarrow> ''NaN''
      | PInf \<Rightarrow> ''Infinity''
      | NInf \<Rightarrow> ''-Infinity''
      | Fin q \<Rightarrow>
          (if of_int \<lfloor>q\<rfloor> = q \<and> \<bar>q\<bar> < 10 ^ 21 then show_int \<lfloor>q\<rfloor>
           else frac_to_string eng q))"

fun ToString :: "engine \<Rightarrow> jsval \<Rightarrow> string option" where
  "ToString eng Undefined = Some ''undefined''"
| "ToString eng Null = Some ''null''"
| "ToString eng (JBool b) = Some (if b then ''true'' else ''false'')"
| "ToString eng (JNum n) = Some (num_to_string eng n)"
| "ToString eng (JStr s) = Some s"
| "ToString eng v = obj_to_string eng v"

text \<open>\<open>new Date(year, month, day)\<close>: a \<open>NaN\<close> or infinite argument gives an Invalid Date.\<close>

fun new_Date3 :: "engine \<Rightarrow> jsnum \<Rightarrow> jsnum \<Rightarrow> jsnum \<Rightarrow> jsdate" where
  "new_Date3 eng (Fin y) (Fin m) (Fin d) = Date_ymd eng y m d"
| "new_Date3 eng y m d = InvalidDate"

section \<open>The shared service: EdulogApiService\<close>

text \<open>
  \<open>calculateAge(birthdate)\<close>. The body of the \<open>try\<close> block is \<open>calculateAge_try\<close>; it
  throws (\<open>None\<close>) only where a method is missing: \<open>includes\<close> on a value that is neither
  a string nor an array, \<open>split\<close> on an array.
\<close>

definition birth_of :: "engine \<Rightarrow> jsval \<Rightarrow> jsdate option" where
  "birth_of eng birthdate =
     (case birthdate of
        JStr s \<Rightarrow>
          (if CHR ''/'' \<in> set s then
             (let parts = split_on CHR ''/'' s in
              if length parts = 3 then
                (let day = parseInt (parts ! 0);
                     month = num_sub (parseInt (parts ! 1)) (Fin 1);
                     year = parseInt (parts ! 2)
                 in Some (new_Date3 eng year month day))
              else Some (Date_parse eng s))
           else Some (Date_parse eng s))
      | JArr xs \<Rightarrow> (if JStr ''/'' \<in> set xs then None else Date_of_obj eng (JArr xs))
      | _ \<Rightarrow> None)"

definition calculateAge_try :: "engine \<Rightarrow> jsval \<Rightarrow> jsval option" where
  "calculateAge_try eng birthdate =
     do {
       birth \<leftarrow> birth_of eng birthdate;
       let today = DateYMD (now_year eng) (now_month eng) (now_day eng);
       let age = num_sub (getFullYear today) (getFullYear birth);
       let monthDiff = num_sub (getMonth today) (getMonth birth);
       let age = (if num_lt monthDiff (Fin 0) \<or>
                     (monthDiff = Fin 0 \<and> num_lt (getDate today) (getDate birth))
                  then num_sub age (Fin 1) else age);
       let monthsSinceBirthday = num_sub (getMonth today) (getMonth birth);
       let monthsSinceBirthday =
             (if num_lt monthsSinceBirthday (Fin 0)
              then num_add monthsSinceBirthday (Fin 12) else monthsSinceBirthday);
       let monthsSinceBirthday =
             (if num_lt (getDate today) (getDate birth) then
                (let m = num_sub monthsSinceBirthday (Fin 1)
                 in if num_lt m (Fin 0) then Fin 11 else m)
              else monthsSinceBirthday);
       Some (JStr (num_to_string eng age @ '','' @ num_to_string eng monthsSinceBirthday))
     }"

definition calculateAge :: "engine \<Rightarrow> jsval \<Rightarrow> jsval" where
  "calculateAge eng birthdate =
     (if \<not> truthy birthdate then Null
      else (case calculateAge_try eng birthdate of
              Some r \<Rightarrow> r
            | None \<Rightarrow> JStr ''0,0''))"

section \<open>The adapters' processData\<close>

text \<open>
  The three adapters \<open>aMerkfaehigkeit\<close>, \<open>mZeichnen\<close> and \<open>figurGrundS\<close> repeat the
  same statements up to the category string, the name of the score field and the grid
  of items. The repeated statements are the functions of this section, with the category
  and the score field as arguments; each adapter's \<open>processData\<close> calls them in the
  order of its source.
\<close>

text \<open>\<open>a && a.k\<close>: a falsy \<open>a\<close> is the value, so the property read never throws.\<close>

definition and_prop :: "jsval \<Rightarrow> string \<Rightarrow> jsval" where
  "and_prop a k = (if truthy a then js_prop a k else a)"

text \<open>A parameter with the default \<open>= null\<close>.\<close>

definition default_null :: "jsval \<Rightarrow> jsval" where
  "default_null v = (if v = Undefined then Null else v)"

definition companyName :: "jsval \<Rightarrow> jsval" where
  "companyName authData =
     (if truthy authData then
        (if truthy (and_prop (js_prop authData ''einrichtung'') ''name'')
         then js_prop (js_prop authData ''einrichtung'') ''name''
         else if truthy (and_prop (js_prop authData ''privat_kunde'') ''name'')
         then js_prop (js_prop authData ''privat_kunde'') ''name''
         else JStr '''')
      else JStr '''')"

subsection \<open>Colors\<close>

definition typeof_object :: "jsval \<Rightarrow> bool" where
  "typeof_object v = (case v of Null \<Rightarrow> True | JArr xs \<Rightarrow> True | JObj kvs \<Rightarrow> True | _ \<Rightarrow> False)"

text \<open>
  \<open>typeof colorObj === 'object' && colorObj.color ? colorObj.color : colorObj\<close>;
  \<open>typeof null\<close> is \<open>'object'\<close>, so a \<open>null\<close> entry throws.
\<close>

definition color_of :: "jsval \<Rightarrow> jsval option" where
  "color_of colorObj =
     (if typeof_object colorObj then
        do { c \<leftarrow> get colorObj ''color''; Some (if truthy c then c else colorObj) }
      else Some colorObj)"

definition parameters_colors :: "jsval \<Rightarrow> jsval option" where
  "parameters_colors c =
     (if truthy c then
        (case c of
           JArr xs \<Rightarrow> map_option JArr (those (map color_of xs))
         | JStr s \<Rightarrow> Some (JArr (map (\<lambda>c. JStr (trim c)) (split_on CHR '','' s)))
         | _ \<Rightarrow> Some (JArr []))
      else Some (JArr []))"

subsection \<open>Thresholds\<close>

record scoring =
  min_v :: jsval
  max_v :: jsval
  ranges_v :: jsval
  assessment_v :: jsval

definition default_scoring :: scoring where
  "default_scoring =
     \<lparr> min_v = JNum (Fin 0), max_v = JNum (Fin 13), ranges_v = JArr [], assessment_v = JStr '''' \<rparr>"

text \<open>\<open>thresholds.filter(threshold => threshold.category === cat)\<close> on the elements.\<close>

fun filter_category :: "string \<Rightarrow> jsval list \<Rightarrow> jsval list option" where
  "filter_category cat [] = Some []"
| "filter_category cat (t # ts) =
     do {
       c \<leftarrow> get t ''category'';
       rest \<leftarrow> filter_category cat ts;
       Some (if strict_eq c (JStr cat) then t # rest else rest)
     }"

text \<open>The comparator \<open>(a, b) => a.level - b.level\<close>.\<close>

definition level_cmp :: "engine \<Rightarrow> jsval \<Rightarrow> jsval \<Rightarrow> jsnum option" where
  "level_cmp eng a b =
     do {
       x \<leftarrow> Number_js eng (js_prop a ''level'');
       y \<leftarrow> Number_js eng (js_prop b ''level'');
       Some (num_sub x y)
     }"

text \<open>
  \<open>Array.prototype.sort\<close> with a comparator. The comparator of the adapters is a
  difference of two numbers, and such a comparator is consistent exactly when no
  difference is \<open>NaN\<close>, of two elements or of an element and itself (\<open>comparable\<close>:
  every level is a finite number). The sort is stable, so for a consistent comparator the
  language allows one result, that of the stable insertion sort (\<open>stable_sort\<close>): an
  element moves behind another only when the comparator is positive, and a comparison
  that throws ends the sort. For any other comparator (a level that is missing or not
  numeric) the language leaves the order to the engine: the result is the array
  rearranged by the ranks the engine gives to its indices, which can be any
  rearrangement, or the call throws.
\<close>

fun insert_sorted ::
  "(jsval \<Rightarrow> jsval \<Rightarrow> jsnum option) \<Rightarrow> jsval \<Rightarrow> jsval list \<Rightarrow> jsval list option" where
  "insert_sorted cmp x [] = Some [x]"
| "insert_sorted cmp x (y # ys) =
     do {
       c \<leftarrow> cmp x y;
       if num_lt (Fin 0) c then map_option (Cons y) (insert_sorted cmp x ys)
       else Some (x # y # ys)
     }"

fun stable_sort ::
  "(jsval \<Rightarrow> jsval \<Rightarrow> jsnum option) \<Rightarrow> jsval list \<Rightarrow> jsval list option" where
  "stable_sort cmp [] = Some []"
| "stable_sort cmp (x # xs) = do { ys \<leftarrow> stable_sort cmp xs; insert_sorted cmp x ys }"

definition comparable :: "(jsval \<Rightarrow> jsval \<Rightarrow> jsnum option) \<Rightarrow> jsval list \<Rightarrow> bool" where
  "comparable cmp xs = list_all (\<lambda>a. list_all (\<lambda>b. cmp a b \<noteq> Some NaN) xs) xs"

definition rearrange :: "(nat \<Rightarrow> nat) \<Rightarrow> jsval list \<Rightarrow> jsval list" where
  "rearrange rank xs = map snd (sort_key (\<lambda>p. rank (fst p)) (enumerate 0 xs))"

definition js_sort ::
  "engine \<Rightarrow> (jsval \<Rightarrow> jsval \<Rightarrow> jsnum option) \<Rightarrow> jsval list \<Rightarrow> jsval list option" where
  "js_sort eng cmp xs =
     (if comparable cmp xs then stable_sort cmp xs
      else map_option (\<lambda>rank. rearrange rank xs) (sort_rank eng cmp xs))"

text \<open>\<open>Number(threshold.min) || 0\<close> and \<open>Number(threshold.max) || 0\<close>.\<close>

definition band :: "engine \<Rightarrow> jsval \<Rightarrow> (jsnum \<times> jsnum) option" where
  "band eng threshold =
     do {
       thresholdMin \<leftarrow> Number_js eng (js_prop threshold ''min'');
       thresholdMax \<leftarrow> Number_js eng (js_prop threshold ''max'');
       Some (num_or0 thresholdMin, num_or0 thresholdMax)
     }"

definition range_of :: "engine \<Rightarrow> jsval \<Rightarrow> jsval option" where
  "range_of eng threshold =
     map_option (\<lambda>b. JObj [(''start'', JNum (fst b)), (''end'', JNum (snd b))]) (band eng threshold)"

text \<open>\<open>score >= thresholdMin && score <= thresholdMax\<close>.\<close>

definition in_band :: "jsnum \<Rightarrow> jsnum \<times> jsnum \<Rightarrow> bool" where
  "in_band score b = (num_le (fst b) score \<and> num_le score (snd b))"

text \<open>\<open>sortedThresholds.find(...)\<close> with the band test: the first element that passes.\<close>

fun find_band :: "engine \<Rightarrow> jsnum \<Rightarrow> jsval list \<Rightarrow> jsval option option" where
  "find_band eng score [] = Some None"
| "find_band eng score (t # ts) =
     do {
       b \<leftarrow> band eng t;
       if in_band score b then Some (Some t) else find_band eng score ts
     }"

text \<open>\<open>testResults && testResults.key ? Number(testResults.key) : 0\<close>.\<close>

definition score_of :: "engine \<Rightarrow> string \<Rightarrow> jsval \<Rightarrow> jsnum option" where
  "score_of eng key testResults =
     (if truthy (and_prop testResults key) then Number_js eng (js_prop testResults key)
      else Some (Fin 0))"

text \<open>
  \<open>if (matchingThreshold && matchingThreshold.description2) assessment = ...\<close>, from
  the initial \<open>""\<close>.
\<close>

definition assessment_of :: "jsval option \<Rightarrow> jsval" where
  "assessment_of matchingThreshold =
     (case matchingThreshold of
        Some t \<Rightarrow>
          (if truthy (js_prop t ''description2'') then js_prop t ''description2'' else JStr '''')
      | None \<Rightarrow> JStr '''')"

definition level_is :: "rat \<Rightarrow> jsval \<Rightarrow> bool" where
  "level_is n t = strict_eq (js_prop t ''level'') (JNum (Fin n))"

text \<open>
  The statements under \<open>if (authData.parameters.edulog_thresholds)\<close>. A truthy value
  that is not an array has no \<open>filter\<close> method, and the call throws.
\<close>

definition resolve_thresholds ::
  "engine \<Rightarrow> string \<Rightarrow> string \<Rightarrow> jsval \<Rightarrow> jsval \<Rightarrow> scoring option" where
  "resolve_thresholds eng cat key thresholds testResults =
     (case thresholds of
        JArr ts \<Rightarrow>
          do {
            matching \<leftarrow> filter_category cat ts;
            if 6 \<le> length matching then
              do {
                sortedThresholds \<leftarrow> js_sort eng (level_cmp eng) matching;
                let level1 = find (level_is 1) sortedThresholds;
                let level6 = find (level_is 6) sortedThresholds;
                mn \<leftarrow> (case level1 of
                         Some t \<Rightarrow>
                           (if js_prop t ''min'' \<noteq> Undefined
                            then map_option JNum (Number_js eng (js_prop t ''min''))
                            else Some (JNum (Fin 0)))
                       | None \<Rightarrow> Some (JNum (Fin 0)));
                mx \<leftarrow> (case level6 of
                         Some t \<Rightarrow>
                           (if js_prop t ''max'' \<noteq> Undefined
                            then map_option JNum (Number_js eng (js_prop t ''max''))
                            else Some (JNum (Fin 13)))
                       | None \<Rightarrow> Some (JNum (Fin 13)));
                ranges \<leftarrow> those (map (range_of eng) sortedThresholds);
                score \<leftarrow> score_of eng key testResults;
                matchingThreshold \<leftarrow> find_band eng score sortedThresholds;
                Some \<lparr> min_v = mn, max_v = mx, ranges_v = JArr ranges,
                       assessment_v = assessment_of matchingThreshold \<rparr>
              }
            else Some default_scoring
          }
      | _ \<Rightarrow> None)"

text \<open>The statements under \<open>if (authData && authData.parameters)\<close>: colors, then thresholds.\<close>

definition scoring_block ::
  "engine \<Rightarrow> string \<Rightarrow> string \<Rightarrow> jsval \<Rightarrow> jsval \<Rightarrow> (jsval \<times> scoring) option" where
  "scoring_block eng cat key authData testResults =
     (if truthy (and_prop authData ''parameters'') then
        (let parameters = js_prop authData ''parameters'' in
         do {
           colors \<leftarrow> parameters_colors (js_prop parameters ''colors'');
           sc \<leftarrow> (if truthy (js_prop parameters ''edulog_thresholds'')
                  then resolve_thresholds eng cat key (js_prop parameters ''edulog_thresholds'') testResults
                  else Some default_scoring);
           Some (colors, sc)
         })
      else Some (JArr [], default_scoring))"

subsection \<open>Grid colors\<close>

definition greenColor :: string where
  "greenColor = ''#d5f5d5''"

definition redColor :: string where
  "redColor = ''#ffcccc''"

text \<open>\<open>testResults && testResults.items && testResults.items.length > 0\<close>.\<close>

definition items_present :: "engine \<Rightarrow> jsval \<Rightarrow> bool option" where
  "items_present eng testResults =
     (if truthy (and_prop testResults ''items'')
      then map_option (num_lt (Fin 0))
             (Number_js eng (js_prop (js_prop testResults ''items'') ''length''))
      else Some False)"

text \<open>aMerkfaehigkeit: the callback of \<open>cellMappings.map\<close>.\<close>

definition cell_color :: "jsval \<Rightarrow> jsval" where
  "cell_color v =
     (if strict_eq v (JBool True) then JStr greenColor
      else if strict_eq v (JBool False) then JStr redColor
      else JStr '''')"

definition cellColors_of :: "engine \<Rightarrow> jsval \<Rightarrow> jsval option" where
  "cellColors_of eng testResults =
     do {
       present \<leftarrow> items_present eng testResults;
       if present then
         (let firstItem = index_prop (js_prop testResults ''items'') 0 in
          if firstItem = Undefined \<or> firstItem = Null then None
          else
            (let cellMappings =
                   [js_prop firstItem ''identifikationOK'',
                    js_prop firstItem ''items2ok'',
                    js_prop firstItem ''items2_v1'',
                    js_prop firstItem ''items2_v2'',
                    js_prop firstItem ''vor'',
                    js_prop firstItem ''items3ok'',
                    js_prop firstItem ''items3_v1'',
                    js_prop firstItem ''items3_v2'',
                    Null,
                    js_prop firstItem ''items4ok'',
                    js_prop firstItem ''items4_v1'',
                    js_prop firstItem ''items4_v2'']
             in Some (JArr (map cell_color cellMappings))))
       else Some (JArr [])
     }"

text \<open>figurGrundS: \<open>v ? greenColor : (v === false ? redColor : '')\<close>.\<close>

definition item_color :: "jsval \<Rightarrow> jsval" where
  "item_color v =
     (if truthy v then JStr greenColor
      else if strict_eq v (JBool False) then JStr redColor
      else JStr '''')"

definition itemColors_of :: "engine \<Rightarrow> jsval \<Rightarrow> (string \<times> jsval) list option" where
  "itemColors_of eng testResults =
     do {
       present \<leftarrow> items_present eng testResults;
       if present then
         (let firstItem = index_prop (js_prop testResults ''items'') 0 in
          if firstItem = Undefined \<or> firstItem = Null then None
          else Some
            [(''kuh'', item_color (js_prop firstItem ''richtigKuh'')),
             (''ente'', item_color (js_prop firstItem ''richtigEnte'')),
             (''kreis'', item_color (js_prop firstItem ''richtigKreis'')),
             (''dreieck'', item_color (js_prop firstItem ''richtigDreieck'')),
             (''auto'', item_color (js_prop firstItem ''richtigAuto'')),
             (''haus'', item_color (js_prop firstItem ''richtigHaus'')),
             (''baum'', item_color (js_prop firstItem ''richtigBaum'')),
             (''lampe'', item_color (js_prop firstItem ''richtigLampe''))])
       else Some []
     }"

subsection \<open>The records\<close>

text \<open>
  \<open>`${apiData.Vorname || ''} ${apiData.Nachname || ''}`.trim() || ''\<close>. The first read
  throws when \<open>apiData\<close> is \<open>null\<close> or \<open>undefined\<close>.
\<close>

definition full_name :: "engine \<Rightarrow> jsval \<Rightarrow> jsval option" where
  "full_name eng apiData =
     do {
       vorname \<leftarrow> get apiData ''Vorname'';
       a \<leftarrow> ToString eng (js_or vorname (JStr ''''));
       nachname \<leftarrow> get apiData ''Nachname'';
       b \<leftarrow> ToString eng (js_or nachname (JStr ''''));
       Some (js_or (JStr (trim (a @ '' '' @ b))) (JStr ''''))
     }"

text \<open>\<open>testResults && testResults.key ? testResults.key : 0\<close>, the score as it is shown.\<close>

definition score_field :: "string \<Rightarrow> jsval \<Rightarrow> jsval" where
  "score_field key testResults =
     (if truthy (and_prop testResults key) then js_prop testResults key else JNum (Fin 0))"

text \<open>The object spread \<open>{...base, ...extra}\<close>: the entries of \<open>extra\<close> win.\<close>

definition spread :: "(string \<times> jsval) list \<Rightarrow> (string \<times> jsval) list \<Rightarrow> (string \<times> jsval) list" where
  "spread base extra = AList.merge base extra"

definition AM_category :: string where
  "AM_category = ''Auditive Merkf'' @ [CHR 0xC3, CHR 0xA4] @ ''higkeit''"

definition AMerkfaehigkeit_processData :: "engine \<Rightarrow> jsval \<Rightarrow> jsval \<Rightarrow> jsval \<Rightarrow> jsval option" where
  "AMerkfaehigkeit_processData eng apiData authData0 testResults0 =
     (let authData = default_null authData0;
          testResults = default_null testResults0
      in do {
        (colors, sc) \<leftarrow> scoring_block eng AM_category ''spseq_score'' authData testResults;
        cellColors \<leftarrow> cellColors_of eng testResults;
        name \<leftarrow> full_name eng apiData;
        Some (JObj
          [(''name'', name),
           (''lang'', js_or (js_prop apiData ''Familiensprache'') (JStr '''')),
           (''birthdate'', js_or (js_prop apiData ''GeburtsDatum'') (JStr '''')),
           (''age'', js_or (calculateAge eng (js_prop apiData ''GeburtsDatum'')) (JStr '''')),
           (''since'', js_prop apiData ''InDEseit''),
           (''date'', JStr (today_de eng)),
           (''teacher'', js_or (js_prop apiData ''authuser_name'') (JStr '''')),
           (''company'', companyName authData),
           (''testResults'', testResults),
           (''min'', min_v sc),
           (''max'', max_v sc),
           (''score'', score_field ''spseq_score'' testResults),
           (''colors'', colors),
           (''ranges'', ranges_v sc),
           (''assessment'', assessment_v sc),
           (''label1'', JStr ''UNKNOWN''),
           (''label2'', JStr ''UNKNOWN''),
           (''label3'', JStr ''UNKNOWN''),
           (''label4'', JStr ''UNKNOWN''),
           (''subgray'', JStr ''UNKNOWN''),
           (''subgreen'', JStr ''UNKNOWN''),
           (''subsplit'', JStr ''UNKNOWN''),
           (''submin'', min_v sc),
           (''submax'', max_v sc),
           (''cellColors'', cellColors)])
      })"

definition AMerkfaehigkeit_getFallbackData :: "engine \<Rightarrow> jsval" where
  "AMerkfaehigkeit_getFallbackData eng =
     JObj
       [(''name'', JStr ''''),
        (''lang'', JStr ''''),
        (''birthdate'', JStr ''''),
        (''age'', JStr ''''),
        (''since'', JStr ''''),
        (''date'', JStr (today_de eng)),
        (''teacher'', JStr ''''),
        (''company'', JStr ''''),
        (''testResults'', Null),
        (''min'', JNum (Fin 0)),
        (''max'', JNum (Fin 13)),
        (''score'', JNum (Fin 0)),
        (''colors'', JArr []),
        (''ranges'', JArr []),
        (''assessment'', JStr ''''),
        (''label1'', JStr ''''),
        (''label2'', JStr ''''),
        (''label3'', JStr ''''),
        (''label4'', JStr ''''),
        (''subgray'', JStr ''''),
        (''subgreen'', JStr ''''),
        (''subsplit'', JNum (Fin 50)),
        (''submin'', JNum (Fin 0)),
        (''submax'', JNum (Fin 13)),
        (''cellColors'', JArr [])]"

definition MZeichnen_processData :: "engine \<Rightarrow> jsval \<Rightarrow> jsval \<Rightarrow> jsval \<Rightarrow> jsval option" where
  "MZeichnen_processData eng apiData authData0 testResults0 =
     (let authData = default_null authData0;
          testResults = default_null testResults0
      in do {
        (colors, sc) \<leftarrow> scoring_block eng ''Mensch Zeichnen'' ''mz_score'' authData testResults;
        name \<leftarrow> full_name eng apiData;
        Some (JObj
          [(''name'', name),
           (''lang'', js_or (js_prop apiData ''Familiensprache'') (JStr '''')),
           (''birthdate'', js_or (js_prop apiData ''GeburtsDatum'') (JStr '''')),
           (''age'', js_or (calculateAge eng (js_prop apiData ''GeburtsDatum'')) (JStr '''')),
           (''since'', js_prop apiData ''InDEseit''),
           (''date'', JStr (today_de eng)),
           (''company'', companyName authData),
           (''testResults'', testResults),
           (''min'', min_v sc),
           (''max'', max_v sc),
           (''score'', score_field ''mz_score'' testResults),
           (''colors'', colors),
           (''ranges'', ranges_v sc),
           (''assessment'', assessment_v sc),
           (''label1'', JStr ''UNKNOWN''),
           (''label2'', JStr ''UNKNOWN''),
           (''label3'', JStr ''UNKNOWN''),
           (''label4'', JStr ''UNKNOWN''),
           (''subsplit'', JStr ''UNKNOWN''),
           (''submin'', min_v sc),
           (''submax'', max_v sc)])
      })"

definition MZeichnen_getFallbackData :: "engine \<Rightarrow> jsval" where
  "MZeichnen_getFallbackData eng =
     JObj
       [(''name'', JStr ''''),
        (''lang'', JStr ''''),
        (''birthdate'', JStr ''''),
        (''age'', JStr ''''),
        (''since'', JStr ''''),
        (''date'', JStr (today_de eng)),
        (''company'', JStr ''''),
        (''testResults'', Null),
        (''min'', JNum (Fin 0)),
        (''max'', JNum (Fin 13)),
        (''score'', JNum (Fin 0)),
        (''colors'', JArr []),
        (''ranges'', JArr []),
        (''assessment'', JStr ''''),
        (''label1'', JStr ''''),
        (''label2'', JStr ''''),
        (''label3'', JStr ''''),
        (''label4'', JStr ''''),
        (''subsplit'', JNum (Fin 50)),
        (''submin'', JNum (Fin 0)),
        (''submax'', JNum (Fin 13))]"

definition FigurGrundS_processData :: "engine \<Rightarrow> jsval \<Rightarrow> jsval \<Rightarrow> jsval \<Rightarrow> jsval option" where
  "FigurGrundS_processData eng apiData authData0 testResults0 =
     (let authData = default_null authData0;
          testResults = default_null testResults0
      in do {
        (colors, sc) \<leftarrow> scoring_block eng ''Figur Grund Sehen'' ''fgs_score'' authData testResults;
        itemColors \<leftarrow> itemColors_of eng testResults;
        name \<leftarrow> full_name eng apiData;
        Some (JObj (spread
          [(''name'', name),
           (''lang'', js_or (js_prop apiData ''Familiensprache'') (JStr '''')),
           (''birthdate'', js_or (js_prop apiData ''GeburtsDatum'') (JStr '''')),
           (''age'', js_or (calculateAge eng (js_prop apiData ''GeburtsDatum'')) (JStr '''')),
           (''since'', js_prop apiData ''InDEseit''),
           (''date'', JStr (today_de eng)),
           (''company'', companyName authData),
           (''testResults'', testResults),
           (''min'', min_v sc),
           (''max'', max_v sc),
           (''score'', score_field ''fgs_score'' testResults),
           (''colors'', colors),
           (''ranges'', ranges_v sc),
           (''assessment'', assessment_v sc),
           (''label1'', JStr ''UNKNOWN''),
           (''label2'', JStr ''UNKNOWN''),
           (''label3'', JStr ''UNKNOWN''),
           (''label4'', JStr ''UNKNOWN''),
           (''subsplit'', JStr ''UNKNOWN''),
           (''submin'', min_v sc),
           (''submax'', max_v sc)]
          itemColors))
      })"

definition FigurGrundS_getFallbackData :: "engine \<Rightarrow> jsval" where
  "FigurGrundS_getFallbackData eng =
     JObj
       [(''name'', JStr ''''),
        (''lang'', JStr ''''),
        (''birthdate'', JStr ''''),
        (''age'', JStr ''''),
        (''since'', JStr ''''),
        (''date'', JStr (today_de eng)),
        (''company'', JStr ''''),
        (''testResults'', Null),
        (''min'', JNum (Fin 0)),
        (''max'', JNum (Fin 13)),
        (''score'', JNum (Fin 0)),
        (''colors'', JArr []),
        (''ranges'', JArr []),
        (''assessment'', JStr ''''),
        (''label1'', JStr ''''),
        (''label2'', JStr ''''),
        (''label3'', JStr ''''),
        (''label4'', JStr ''''),
        (''subsplit'', JNum (Fin 50)),
        (''submin'', JNum (Fin 0)),
        (''submax'', JNum (Fin 13)),
        (''kuh'', JStr ''''),
        (''ente'', JStr ''''),
        (''kreis'', JStr ''''),
        (''dreieck'', JStr ''''),
        (''auto'', JStr ''''),
        (''haus'', JStr ''''),
        (''baum'', JStr ''''),
        (''lampe'', JStr '''')]"

text \<open>The keys of a record.\<close>

definition keys_of :: "jsval \<Rightarrow> string set" where
  "keys_of v = (case v of JObj kvs \<Rightarrow> fst ` set kvs | _ \<Rightarrow> {})"

section \<open>The generic record of the service\<close>

text \<open>
  \<open>parseColors(colorsString)\<close>: a truthy value that is not a string has no \<open>split\<close>
  method; the TypeError is caught and the result is \<open>null\<close>.
\<close>

definition parseColors :: "jsval \<Rightarrow> jsval" where
  "parseColors colorsString =
     (if \<not> truthy colorsString then Null
      else (case colorsString of
              JStr s \<Rightarrow> JArr (map (\<lambda>color. JStr (trim color)) (split_on CHR '','' s))
            | _ \<Rightarrow> Null))"

text \<open>
  The callback of \<open>parseRanges\<close>. \<open>const [start, end] = range.split('-').map(Number)\<close>
  takes the first two numbers; a missing one is \<open>undefined\<close>.
\<close>

definition parse_range :: "string \<Rightarrow> jsval" where
  "parse_range rng =
     (if CHR ''-'' \<in> set rng then
        (case map StringToNumber (split_on CHR ''-'' rng) of
           a # b # rest \<Rightarrow> JObj [(''start'', JNum a), (''end'', JNum b)]
         | [a] \<Rightarrow> JObj [(''start'', JNum a), (''end'', Undefined)]
         | [] \<Rightarrow> JObj [(''start'', Undefined), (''end'', Undefined)])
      else
        (let val = StringToNumber rng
         in JObj [(''start'', JNum val), (''end'', JNum val)]))"

definition parseRanges :: "jsval \<Rightarrow> jsval" where
  "parseRanges rangesString =
     (if \<not> truthy rangesString then Null
      else (case rangesString of
              JStr s \<Rightarrow> JArr (map parse_range (split_on CHR '','' s))
            | _ \<Rightarrow> Null))"

text \<open>\<open>n || d\<close> on a number.\<close>

definition num_or :: "jsnum \<Rightarrow> jsnum \<Rightarrow> jsnum" where
  "num_or n d = (if n = NaN \<or> n = Fin 0 then d else n)"

text \<open>Company name and city of \<open>processApiData\<close>.\<close>

definition company_stadt :: "jsval \<Rightarrow> jsval \<times> jsval" where
  "company_stadt authData =
     (if truthy authData then
        (if truthy (and_prop (js_prop authData ''einrichtung'') ''name'')
         then (js_prop (js_prop authData ''einrichtung'') ''name'',
               js_or (js_prop (js_prop authData ''einrichtung'') ''stadt'') (JStr ''''))
         else if truthy (and_prop (js_prop authData ''privat_kunde'') ''name'')
         then (js_prop (js_prop authData ''privat_kunde'') ''name'',
               js_or (js_prop (js_prop authData ''privat_kunde'') ''stadt'') (JStr ''''))
         else (JStr '''', JStr ''''))
      else (JStr '''', JStr ''''))"

text \<open>
  The own enumerable properties that \<open>...apiData\<close> copies: the entries of an object,
  the elements of an array and the characters of a string under their indices, nothing
  for a number or a boolean.
\<close>

definition own_entries :: "jsval \<Rightarrow> (string \<times> jsval) list" where
  "own_entries v =
     (case v of
        JObj kvs \<Rightarrow> kvs
      | JArr xs \<Rightarrow> zip (map show_nat [0..<length xs]) xs
      | JStr s \<Rightarrow> zip (map show_nat [0..<length s]) (map (\<lambda>c. JStr [c]) s)
      | _ \<Rightarrow> [])"

definition default_colors :: jsval where
  "default_colors =
     JArr [JStr ''#ed1b06'', JStr ''#ff7801'', JStr ''#fcc709'',
           JStr ''#fff15e'', JStr ''#c1ef4a'', JStr ''#79e607'']"

definition range_obj :: "rat \<Rightarrow> rat \<Rightarrow> jsval" where
  "range_obj a b = JObj [(''start'', JNum (Fin a)), (''end'', JNum (Fin b))]"

definition default_ranges :: jsval where
  "default_ranges =
     JArr [range_obj 0 3, range_obj 4 5, range_obj 6 6,
           range_obj 7 8, range_obj 9 10, range_obj 11 11]"

definition processApiData :: "engine \<Rightarrow> jsval \<Rightarrow> jsval \<Rightarrow> jsval option" where
  "processApiData eng apiData authData0 =
     (let authData = default_null authData0;
          (companyName, stadt) = company_stadt authData
      in do {
        name \<leftarrow> full_name eng apiData;
        mn \<leftarrow> Number_js eng (js_prop apiData ''min'');
        mx \<leftarrow> Number_js eng (js_prop apiData ''max'');
        score \<leftarrow> Number_js eng (js_prop apiData ''score'');
        subsplit \<leftarrow> Number_js eng (js_prop apiData ''subsplit'');
        submin \<leftarrow> Number_js eng (js_prop apiData ''submin'');
        submax \<leftarrow> Number_js eng (js_prop apiData ''submax'');
        Some (JObj (spread
          [(''name'', name),
           (''birthdate'', js_or (js_prop apiData ''GeburtsDatum'') (JStr '''')),
           (''age'', js_or (calculateAge eng (js_prop apiData ''GeburtsDatum'')) (JStr '''')),
           (''language'', js_or (js_prop apiData ''Familiensprache'') (JStr '''')),
           (''since'', js_or (js_prop apiData ''InDEseit'') (JStr '''')),
           (''date'', JStr (today_de eng)),
           (''teacher'', js_or (js_prop apiData ''authuser_name'') (JStr '''')),
           (''company'', companyName),
           (''stadt'', stadt),
           (''assessment'', js_or (js_prop apiData ''Beurteilung'') (JStr '''')),
           (''min'', JNum (num_or mn (Fin 0))),
           (''max'', JNum (num_or mx (Fin 13))),
           (''score'', JNum (num_or score (Fin 0))),
           (''colors'', js_or (parseColors (js_prop apiData ''colors'')) default_colors),
           (''ranges'', js_or (parseRanges (js_prop apiData ''ranges'')) default_ranges),
           (''label1'', js_or (js_prop apiData ''label1'') (JStr (''stark auff'' @ [CHR 0xE4] @ ''llig''))),
           (''label2'', js_or (js_prop apiData ''label2'') (JStr (''auff'' @ [CHR 0xE4] @ ''llig''))),
           (''label3'', js_or (js_prop apiData ''label3'') (JStr (''unauff'' @ [CHR 0xE4] @ ''llig''))),
           (''label4'', js_or (js_prop apiData ''label4'')
                          (JStr (''besonders unauff'' @ [CHR 0xE4] @ ''llig''))),
           (''subsplit'', JNum (num_or subsplit (Fin 50))),
           (''submin'', JNum (num_or submin (Fin 0))),
           (''submax'', JNum (num_or submax (Fin 13))),
           (''subgray'', js_or (js_prop apiData ''subgray'')
                           (JStr (''Weiterf'' @ [CHR 0xFC] @ ''hrende Fachdiagnostik empfohlen''))),
           (''subgreen'', js_or (js_prop apiData ''subgreen'') (JStr ''Normbereich''))]
          (own_entries apiData)))
      })"

section \<open>fetchData\<close>

text \<open>
  The page: the two URL parameters (\<open>URLSearchParams.get\<close> answers \<open>null\<close> for an absent
  one), the cache of the service and its \<open>authData\<close> field (\<open>null\<close> at first). The
  network is a function from a request to what \<open>fetch\<close> resolves to: \<open>None\<close> when the
  promise is rejected, otherwise the \<open>ok\<close> flag and what \<open>json()\<close> resolves to (\<open>None\<close>
  when it rejects). A request is named by the parts that vary in its URL and headers.
  \<open>fetchData\<close> returns its value, the page after the call, and the requests it made in
  order.
\<close>

record page =
  url_token :: "string option"
  url_p_id :: "string option"
  cache :: "(string \<times> jsval) list"
  authData :: jsval

datatype id_param = Einrichtung_id string | Privat_kunde_id string

datatype request =
    Authenticate string string
  | ViewAllData string id_param string
  | ViewData string string

datatype response = Response bool "jsval option"

type_synonym network = "request \<Rightarrow> response option"

definition url_param :: "string option \<Rightarrow> jsval" where
  "url_param p = (case p of None \<Rightarrow> Null | Some s \<Rightarrow> JStr s)"

text \<open>\<open>!!(params.token && params.p_id)\<close>.\<close>

definition hasApiParams :: "page \<Rightarrow> bool" where
  "hasApiParams st = (truthy (url_param (url_token st)) \<and> truthy (url_param (url_p_id st)))"

definition auth_record :: "jsval \<Rightarrow> string \<Rightarrow> string \<Rightarrow> jsval option" where
  "auth_record authResponse token p_id =
     do {
       d \<leftarrow> get authResponse ''data'';
       user \<leftarrow> get d ''user'';
       Some (JObj
         [(''user'', user),
          (''einrichtung'', js_prop d ''einrichtung''),
          (''privat_kunde'', js_prop d ''privat_kunde''),
          (''parameters'', js_prop d ''parameters''),
          (''token'', JStr token),
          (''p_id'', JStr p_id)])
     }"

definition authenticate :: "network \<Rightarrow> page \<Rightarrow> jsval option \<times> page \<times> request list" where
  "authenticate net st =
     (if truthy (authData st) then (Some (authData st), st, [])
      else if \<not> hasApiParams st then (None, st, [])
      else
        (case (url_token st, url_p_id st) of
           (Some token, Some p_id) \<Rightarrow>
             (let req = Authenticate token p_id in
              case net req of
                None \<Rightarrow> (None, st, [req])
              | Some (Response ok body) \<Rightarrow>
                  (if \<not> ok then (None, st, [req])
                   else
                     (case do { authResponse \<leftarrow> body; auth_record authResponse token p_id } of
                        None \<Rightarrow> (None, st, [req])
                      | Some a \<Rightarrow> (Some a, st\<lparr>authData := a\<rparr>, [req]))))
         | _ \<Rightarrow> (None, st, [])))"

text \<open>The parts of an adapter that differ from one folder to the next.\<close>

record adapter =
  cache_prefix :: string
  result_key :: string
  processData :: "engine \<Rightarrow> jsval \<Rightarrow> jsval \<Rightarrow> jsval \<Rightarrow> jsval option"
  getFallbackData :: "engine \<Rightarrow> jsval"

text \<open>
  The identity parameter of the basic-data URL, or the thrown Error when the session
  carries neither id.
\<close>

definition id_param_of :: "engine \<Rightarrow> jsval \<Rightarrow> id_param option" where
  "id_param_of eng a =
     (if truthy (and_prop (js_prop a ''einrichtung'') ''id'')
      then map_option Einrichtung_id (ToString eng (js_prop (js_prop a ''einrichtung'') ''id''))
      else if truthy (and_prop (js_prop a ''privat_kunde'') ''id'')
      then map_option Privat_kunde_id (ToString eng (js_prop (js_prop a ''privat_kunde'') ''id''))
      else None)"

text \<open>The basic-data call: \<open>fetch\<close>, the throw on \<open>!response.ok\<close>, then \<open>json()\<close>.\<close>

definition basic_data :: "network \<Rightarrow> request \<Rightarrow> jsval option" where
  "basic_data net req =
     (case net req of
        None \<Rightarrow> None
      | Some (Response ok body) \<Rightarrow> (if \<not> ok then None else body))"

text \<open>
  The test-result response: \<open>testData[key] || null\<close> when it is \<open>ok\<close>, otherwise the
  warning is logged and \<open>testResults\<close> stays \<open>null\<close>.
\<close>

definition test_results_of :: "string \<Rightarrow> response \<Rightarrow> jsval option" where
  "test_results_of key r =
     (case r of
        Response ok body \<Rightarrow>
          (if ok then do { testData \<leftarrow> body; v \<leftarrow> get testData key; Some (js_or v Null) }
           else Some Null))"

definition adapter_fetchData ::
  "adapter \<Rightarrow> engine \<Rightarrow> network \<Rightarrow> page \<Rightarrow> jsval \<times> page \<times> request list" where
  "adapter_fetchData A eng net st =
     (if \<not> hasApiParams st then (getFallbackData A eng, st, [])
      else
        (case (url_token st, url_p_id st) of
           (Some token, Some p_id) \<Rightarrow>
             (let cacheKey = cache_prefix A @ p_id @ ''_'' @ token in
              case map_of (cache st) cacheKey of
                Some cached \<Rightarrow> (cached, st, [])
              | None \<Rightarrow>
                  (case authenticate net st of
                     (None, st1, tr1) \<Rightarrow> (getFallbackData A eng, st1, tr1)
                   | (Some a, st1, tr1) \<Rightarrow>
                       (case id_param_of eng a of
                          None \<Rightarrow> (getFallbackData A eng, st1, tr1)
                        | Some idp \<Rightarrow>
                            (let req1 = ViewAllData p_id idp token in
                             case basic_data net req1 of
                               None \<Rightarrow> (getFallbackData A eng, st1, tr1 @ [req1])
                             | Some data \<Rightarrow>
                                 (let req2 = ViewData p_id token in
                                  case net req2 of
                                    None \<Rightarrow> (getFallbackData A eng, st1, tr1 @ [req1, req2])
                                  | Some testResponse \<Rightarrow>
                                      (case do {
                                              testResults \<leftarrow> test_results_of (result_key A) testResponse;
                                              d0 \<leftarrow> get_index data 0;
                                              processData A eng (js_or d0 data) a testResults
                                            } of
                                         None \<Rightarrow> (getFallbackData A eng, st1, tr1 @ [req1, req2])
                                       | Some processedData \<Rightarrow>
                                           (processedData,
                                            st1\<lparr>cache := AList.update cacheKey processedData (cache st1)\<rparr>,
                                            tr1 @ [req1, req2])))))))
         | _ \<Rightarrow> (getFallbackData A eng, st, [])))"

definition AMerkfaehigkeitApi :: adapter where
  "AMerkfaehigkeitApi =
     \<lparr> cache_prefix = ''amerkfaehigkeit_'', result_key = ''spseq_TotalResult'',
       processData = AMerkfaehigkeit_processData,
       getFallbackData = AMerkfaehigkeit_getFallbackData \<rparr>"

definition MZeichnenApi :: adapter where
  "MZeichnenApi =
     \<lparr> cache_prefix = ''mzeichnen_'', result_key = ''mz_TotalResult'',
       processData = MZeichnen_processData,
       getFallbackData = MZeichnen_getFallbackData \<rparr>"

definition FigurGrundSApi :: adapter where
  "FigurGrundSApi =
     \<lparr> cache_prefix = ''figurgrunds_'', result_key = ''fgs_TotalResult'',
       processData = FigurGrundS_processData,
       getFallbackData = FigurGrundS_getFallbackData \<rparr>"

text \<open>
  An engine and clock to run the model on: the date is 1 June 2024, and an array whose
  comparator is not consistent is left in its order.
\<close>

definition engine0 :: engine where
  "engine0 =
     \<lparr> obj_to_number = (\<lambda>v. Some NaN),
       obj_to_string = (\<lambda>v. Some ''[object Object]''),
       sort_rank = (\<lambda>cmp xs. Some (\<lambda>i. 0)),
       frac_to_string = (\<lambda>q. ''?''),
       Date_parse = (\<lambda>s. InvalidDate),
       Date_of_obj = (\<lambda>v. Some InvalidDate),
       Date_ymd = (\<lambda>y m d. DateYMD \<lfloor>y\<rfloor> \<lfloor>m\<rfloor> \<lfloor>d\<rfloor>),
       now_year = 2024, now_month = 5, now_day = 1,
       today_de = ''1.6.2024'' \<rparr>"

text \<open>The keys that the grid of figurGrundS adds, and the keys every figurGrundS record has.\<close>

definition item_keys :: "string set" where
  "item_keys = {''kuh'', ''ente'', ''kreis'', ''dreieck'', ''auto'', ''haus'', ''baum'', ''lampe''}"

definition base_keys :: "string set" where
  "base_keys = {''name'', ''lang'', ''birthdate'', ''age'', ''since'', ''date'', ''company'',
     ''testResults'', ''min'', ''max'', ''score'', ''colors'', ''ranges'', ''assessment'',
     ''label1'', ''label2'', ''label3'', ''label4'', ''subsplit'', ''submin'', ''submax''}"

text \<open>
  Words for the statements about the classifier: the level of a threshold as a number,
  whether it is a finite number, the order of two thresholds by level, and whether the
  band of a threshold contains a score.
\<close>

definition level_of :: "engine \<Rightarrow> jsval \<Rightarrow> jsnum option" where
  "level_of eng t = Number_js eng (js_prop t ''level'')"

definition finite_level :: "engine \<Rightarrow> jsval \<Rightarrow> bool" where
  "finite_level eng t = (case level_of eng t of Some (Fin l) \<Rightarrow> True | _ \<Rightarrow> False)"

definition level_le :: "engine \<Rightarrow> jsval \<Rightarrow> jsval \<Rightarrow> bool" where
  "level_le eng a b =
     (case (level_of eng a, level_of eng b) of
        (Some x, Some y) \<Rightarrow> num_le x y
      | _ \<Rightarrow> False)"

definition band_contains :: "engine \<Rightarrow> jsnum \<Rightarrow> jsval \<Rightarrow> bool" where
  "band_contains eng score t = (case band eng t of Some b \<Rightarrow> in_band score b | None \<Rightarrow> False)"

text \<open>One field of the record that \<open>processData\<close> returned.\<close>

definition result_field :: "string \<Rightarrow> jsval option \<Rightarrow> jsval option" where
  "result_field k r = (case r of Some vm \<Rightarrow> Some (js_prop vm k) | None \<Rightarrow> None)"

text \<open>Thresholds and sessions to run the model on.\<close>

definition threshold :: "string \<Rightarrow> rat \<Rightarrow> rat \<Rightarrow> rat \<Rightarrow> string \<Rightarrow> jsval" where
  "threshold cat level lo hi description =
     JObj [(''category'', JStr cat), (''level'', JNum (Fin level)),
           (''min'', JNum (Fin lo)), (''max'', JNum (Fin hi)),
           (''description2'', JStr description)]"

definition session :: "jsval \<Rightarrow> jsval list \<Rightarrow> jsval" where
  "session colors thresholds =
     JObj [(''einrichtung'', JObj [(''id'', JNum (Fin 15)), (''name'', JStr ''Kita'')]),
           (''parameters'',
            JObj [(''colors'', colors), (''edulog_thresholds'', JArr thresholds)])]"

text \<open>Six levels given out of order; the bands of levels 2 and 3 overlap at 5 and 6.\<close>

definition overlapping :: "string \<Rightarrow> jsval list" where
  "overlapping cat =
     [threshold cat 3 5 8 ''c'', threshold cat 1 0 3 ''a'', threshold cat 2 4 6 ''b'',
      threshold cat 6 12 13 ''f'', threshold cat 4 9 10 ''d'', threshold cat 5 11 11 ''e'']"

text \<open>Seven thresholds of one category, all of level 1.\<close>

definition seven_level1 :: "string \<Rightarrow> jsval list" where
  "seven_level1 cat =
     [threshold cat 1 2 5 ''x'', threshold cat 1 2 5 ''x'', threshold cat 1 2 5 ''x'',
      threshold cat 1 2 5 ''x'', threshold cat 1 2 5 ''x'', threshold cat 1 2 5 ''x'',
      threshold cat 1 2 5 ''x'']"

text \<open>Five thresholds of the aMerkfaehigkeit category, then six of another.\<close>

definition mixed :: "jsval list" where
  "mixed = take 5 (overlapping AM_category) @ overlapping ''Mensch Zeichnen''"





text \<open>
  A page with both URL parameters, the body of a successful authenticate call with the
  thresholds \<open>overlapping\<close>, the session it becomes, a network whose test-result call
  fails, and one whose basic-data call fails.
\<close>

definition page0 :: page where
  "page0 = \<lparr> url_token = Some ''tok'', url_p_id = Some ''17'', cache = [], authData = Null \<rparr>"

definition auth_response :: jsval where
  "auth_response =
     JObj [(''data'',
            JObj [(''user'', JObj []),
                  (''einrichtung'', JObj [(''id'', JNum (Fin 15)), (''name'', JStr ''Kita'')]),
                  (''parameters'',
                   JObj [(''edulog_thresholds'', JArr (overlapping AM_category))])])]"

fun net_test_fails :: network where
  "net_test_fails (Authenticate token p_id) = Some (Response True (Some auth_response))"
| "net_test_fails (ViewAllData p_id idp token) =
     Some (Response True (Some (JArr [JObj [(''Vorname'', JStr ''Ada'')]])))"
| "net_test_fails (ViewData p_id token) = Some (Response False None)"

fun net_basic_fails :: network where
  "net_basic_fails (Authenticate token p_id) = Some (Response True (Some auth_response))"
| "net_basic_fails (ViewAllData p_id idp token) = Some (Response False None)"
| "net_basic_fails (ViewData p_id token) = Some (Response True (Some (JObj [])))"

definition session0 :: jsval where
  "session0 =
     JObj [(''user'', JObj []),
           (''einrichtung'', JObj [(''id'', JNum (Fin 15)), (''name'', JStr ''Kita'')]),
           (''privat_kunde'', Undefined),
           (''parameters'', JObj [(''edulog_thresholds'', JArr (overlapping AM_category))]),
           (''token'', JStr ''tok''),
           (''p_id'', JStr ''17'')]"

text \<open>A value that is neither an array nor an object.\<close>

definition primitive :: "jsval \<Rightarrow> bool" where
  "primitive v = (case v of JArr xs \<Rightarrow> False | JObj kvs \<Rightarrow> False | _ \<Rightarrow> True)"

text \<open>A raw record that carries two of the keys the normalisation computes, and one more.\<close>

definition raw_record :: jsval where
  "raw_record = JObj [(''name'', JStr ''raw''), (''min'', JStr ''abc''), (''zzz'', Null)]"

section \<open>Verified properties\<close>

subsection \<open>Rounding to binary64\<close>

text \<open>
  The exponent that \<open>binary_exponent\<close> computes is the binary exponent of its argument.
  From it: a number of \<open>2 ^ 1024\<close> or more rounds to an infinity, a positive number up
  to \<open>2 ^ - 1075\<close> rounds to 0, and an integer up to \<open>2 ^ 53\<close> is not changed.
\<close>

lemma pow2_powi: "pow2 e = 2 powi e"
  by (simp add: pow2_def power_int_def inverse_eq_divide power_one_over)

lemma round64_pos_powi:
  "round64_pos x =
     (let e = max (binary_exponent x) (- 1022);
          ulp = 2 powi (e - 52);
          y = of_int (round_half_even (x / ulp)) * ulp
      in if 2 ^ 1024 \<le> y then PInf else Fin y)"
  by (simp add: round64_pos_def pow2_powi)

lemma bit_length_bounds:
  "0 < n \<Longrightarrow> 2 ^ (bit_length n - 1) \<le> n \<and> n < 2 ^ bit_length n \<and> 0 < bit_length n"
proof (induction n rule: bit_length.induct)
  case (1 n)
  show ?case
  proof (cases "n = 1")
    case True
    then show ?thesis
      by (simp add: bit_length.simps [of 1] bit_length.simps [of 0])
  next
    case False
    with 1 have m: "0 < n div 2" by simp
    with 1 have ih: "2 ^ (bit_length (n div 2) - 1) \<le> n div 2"
      "n div 2 < 2 ^ bit_length (n div 2)" "0 < bit_length (n div 2)"
      by simp_all
    have b: "bit_length n = Suc (bit_length (n div 2))"
      using 1(2) by (simp add: bit_length.simps [of n])
    from ih(3) obtain k where k: "bit_length (n div 2) = Suc k"
      by (cases "bit_length (n div 2)") auto
    from ih(1) k have "2 * 2 ^ k \<le> 2 * (n div 2)" by simp
    then have lo: "2 ^ Suc k \<le> n" by (simp, linarith?)
    from ih(2) k have "n div 2 + 1 \<le> 2 ^ Suc k" by simp
    then have "2 * (n div 2) + 2 \<le> 2 * 2 ^ Suc k" by linarith
    then have hi: "n < 2 ^ Suc (Suc k)" by (simp, linarith?)
    from lo hi show ?thesis
      by (simp add: b k)
  qed
qed

lemma binary_exponent_bounds:
  assumes "0 < x"
  shows "2 powi binary_exponent x \<le> x \<and> x < 2 powi (binary_exponent x + 1)"
proof (cases "1 \<le> x")
  case True
  then have n: "0 < \<lfloor>x\<rfloor>" by simp
  let ?b = "bit_length \<lfloor>x\<rfloor>"
  from bit_length_bounds [OF n] have lo: "2 ^ (?b - 1) \<le> \<lfloor>x\<rfloor>"
    and hi: "\<lfloor>x\<rfloor> < 2 ^ ?b" and pos: "0 < ?b"
    by simp_all
  have e: "binary_exponent x = int ?b - 1"
    using True by (simp add: binary_exponent_def)
  from pos have e': "int ?b - 1 = int (?b - 1)" by simp
  from lo have "(2::rat) ^ (?b - 1) \<le> of_int \<lfloor>x\<rfloor>"
    by (metis of_int_le_iff of_int_numeral of_int_power)
  also have "\<dots> \<le> x" by simp
  finally have 1: "2 powi binary_exponent x \<le> x"
    by (simp add: e e' power_int_of_nat del: of_nat_diff)
  from hi have "\<lfloor>x\<rfloor> + 1 \<le> 2 ^ ?b" by simp
  then have "(of_int (\<lfloor>x\<rfloor> + 1)::rat) \<le> 2 ^ ?b"
    by (metis of_int_le_iff of_int_numeral of_int_power)
  moreover have "x < of_int (\<lfloor>x\<rfloor> + 1)" by linarith
  ultimately have "x < 2 ^ ?b" by linarith
  then have 2: "x < 2 powi (binary_exponent x + 1)"
    by (simp add: e power_int_of_nat)
  from 1 2 show ?thesis ..
next
  case False
  with assms have y: "1 < 1 / x" by simp
  let ?m = "\<lceil>1 / x\<rceil> - 1"
  let ?b = "bit_length ?m"
  from y have m: "0 < ?m" by linarith
  from bit_length_bounds [OF m] have lo: "2 ^ (?b - 1) \<le> ?m"
    and hi: "?m < 2 ^ ?b" and pos: "0 < ?b"
    by simp_all
  have e: "binary_exponent x = - int ?b"
    using False by (simp add: binary_exponent_def)
  have "1 / x \<le> of_int (?m + 1)" by simp
  also from hi have "(of_int (?m + 1)::rat) \<le> 2 ^ ?b"
    by (metis of_int_le_iff of_int_numeral of_int_power zless_imp_add1_zle)
  finally have "1 / x \<le> 2 ^ ?b" .
  with assms have "1 / 2 ^ ?b \<le> x"
    by (simp add: field_simps)
  then have 1: "2 powi binary_exponent x \<le> x"
    by (simp add: e power_int_minus power_int_of_nat field_simps)
  from lo have "(2::rat) ^ (?b - 1) \<le> of_int ?m"
    by (metis of_int_le_iff of_int_numeral of_int_power)
  also have "(of_int ?m::rat) < 1 / x" by simp linarith
  finally have "(2::rat) ^ (?b - 1) < 1 / x" .
  with assms have lt: "x < 1 / 2 ^ (?b - 1)"
    by (simp add: field_simps)
  from pos have eq: "binary_exponent x + 1 = - int (?b - 1)"
    by (simp add: e)
  have "(2::rat) powi (- int (?b - 1)) = 1 / 2 ^ (?b - 1)"
    by (simp add: power_int_minus_divide del: of_nat_diff)
  with lt have 2: "x < 2 powi (binary_exponent x + 1)"
    unfolding eq by simp
  from 1 2 show ?thesis ..
qed


lemma round_half_even_floor: "\<lfloor>x\<rfloor> \<le> round_half_even x"
  by (simp add: round_half_even_def Let_def)

lemma round_half_even_int: "round_half_even (of_int k) = k"
  by (simp add: round_half_even_def)

lemma powi_le_cancel:
  assumes "(2::rat) powi a < 2 powi b"
  shows "a < b"
proof (rule ccontr)
  assume "\<not> a < b"
  then have "b \<le> a" by simp
  then have "(2::rat) powi b \<le> 2 powi a"
    by (rule power_int_increasing) simp
  with assms show False by simp
qed

lemma round64_overflow:
  assumes "2 ^ 1024 \<le> x"
  shows "round64 x = PInf"
proof -
  from assms have pos: "0 < x"
    by (meson less_le_trans zero_less_numeral zero_less_power)
  let ?e = "binary_exponent x"
  from binary_exponent_bounds [OF pos] have lo: "2 powi ?e \<le> x"
    and hi: "x < 2 powi (?e + 1)"
    by simp_all
  from assms hi have "(2::rat) powi 1024 < 2 powi (?e + 1)"
    by simp
  then have e: "1024 \<le> ?e"
    using powi_le_cancel by fastforce
  then have mx: "max ?e (- 1022) = ?e" by simp
  let ?ulp = "(2::rat) powi (?e - 52)"
  have ulp: "0 < ?ulp"
    by (simp add: zero_less_power_int)
  have split: "(2::rat) powi ?e = 2 ^ 52 * ?ulp"
    using power_int_add [of "2::rat" 52 "?e - 52"] by simp
  with lo ulp have "2 ^ 52 \<le> x / ?ulp"
    by (simp add: field_simps)
  then have "(2::int) ^ 52 \<le> \<lfloor>x / ?ulp\<rfloor>"
    by (simp add: le_floor_iff)
  with round_half_even_floor [of "x / ?ulp"] have "(2::int) ^ 52 \<le> round_half_even (x / ?ulp)"
    by linarith
  then have "(2::rat) ^ 52 \<le> of_int (round_half_even (x / ?ulp))"
    by (metis of_int_le_iff of_int_numeral of_int_power)
  with ulp have "2 ^ 52 * ?ulp \<le> of_int (round_half_even (x / ?ulp)) * ?ulp"
    by (simp add: mult_right_mono)
  with split have "2 powi ?e \<le> of_int (round_half_even (x / ?ulp)) * ?ulp"
    by simp
  moreover from e have "(2::rat) powi 1024 \<le> 2 powi ?e"
    by (intro power_int_increasing) simp_all
  ultimately have "2 ^ 1024 \<le> of_int (round_half_even (x / ?ulp)) * ?ulp"
    by simp
  with pos show ?thesis
    by (simp add: round64_def round64_pos_powi Let_def mx)
qed

lemma round_half_even_small:
  assumes "0 \<le> t" and "t \<le> 1 / 2"
  shows "round_half_even t = 0"
proof -
  from assms have "\<lfloor>t\<rfloor> = 0"
    by (simp add: floor_eq_iff)
  with assms show ?thesis
    by (simp add: round_half_even_def Let_def)
qed

lemma round64_underflow:
  assumes pos: "0 < x" and small: "x \<le> 2 powi (- 1075)"
  shows "round64 x = Fin 0"
proof -
  define u :: rat where "u = 2 powi (- 1074)"
  have u: "0 < u"
    by (simp add: u_def zero_less_power_int)
  have "(2::rat) powi (- 1 + - 1074) = 2 powi (- 1) * 2 powi (- 1074)"
    by (rule power_int_add) simp
  then have half: "(2::rat) powi (- 1075) = u / 2"
    by (simp add: u_def)
  let ?e = "binary_exponent x"
  from binary_exponent_bounds [OF pos] have "2 powi ?e \<le> x"
    by simp
  also note small
  also have "(2::rat) powi (- 1075) < 2 powi (- 1074)"
    by (rule power_int_strict_increasing) simp_all
  finally have "?e < - 1074"
    by (rule powi_le_cancel)
  then have mx: "max ?e (- 1022) = - 1022" by simp
  have ulp: "(2::rat) powi (- 1022 - 52) = u"
    by (simp add: u_def)
  from small half u have "x / u \<le> 1 / 2"
    by (simp add: field_simps)
  moreover from pos u have "0 \<le> x / u"
    by simp
  ultimately have "round_half_even (x / u) = 0"
    by (intro round_half_even_small)
  then have "round64_pos x = Fin 0"
    unfolding round64_pos_powi Let_def mx ulp by simp
  with pos show ?thesis
    by (simp add: round64_def)
qed

lemma num_neg_neg: "num_neg (num_neg y) = y"
  by (cases y) simp_all

lemma round64_neg: "round64 (- x) = num_neg (round64 x)"
proof -
  consider "x = 0" | "0 < x" | "x < 0" by linarith
  then show ?thesis
    by cases (simp_all add: round64_def num_neg_neg)
qed


lemma round64_pos_int:
  assumes n: "0 < n" and le: "n \<le> 2 ^ 53"
  shows "round64_pos (of_int n) = Fin (of_int n)"
proof -
  define x :: rat where "x = of_int n"
  let ?e = "binary_exponent x"
  from n have pos: "0 < x" and one: "1 \<le> x"
    by (simp_all add: x_def)
  from le have "x \<le> of_int (2 ^ 53)"
    unfolding x_def by (simp only: of_int_le_iff)
  then have x53: "x \<le> 2 ^ 53"
    by simp
  then have small: "\<not> 2 ^ 1024 \<le> x"
    by simp
  from binary_exponent_bounds [OF pos] have lo: "2 powi ?e \<le> x"
    and hi: "x < 2 powi (?e + 1)"
    by simp_all
  from one hi have "(2::rat) powi 0 < 2 powi (?e + 1)"
    by simp
  then have e0: "0 \<le> ?e"
    using powi_le_cancel by fastforce
  have "(2::rat) powi 53 < 2 powi 54"
    by (rule power_int_strict_increasing) simp_all
  with lo x53 have "(2::rat) powi ?e < 2 powi 54"
    by simp
  then have e53: "?e \<le> 53"
    using powi_le_cancel by fastforce
  from e0 have mx: "max ?e (- 1022) = ?e"
    by simp
  define d where "d = nat (53 - ?e)"
  from e53 have ed: "?e - 52 = 1 - int d"
    by (simp add: d_def)
  have "(2::rat) powi (1 + - int d) = 2 powi 1 * 2 powi (- int d)"
    by (rule power_int_add) simp
  then have ulp: "(2::rat) powi (?e - 52) = 2 / 2 ^ d"
    by (simp add: ed power_int_minus_divide)
  show ?thesis
  proof (cases d)
    case 0
    with e53 have "?e = 53"
      by (simp add: d_def)
    with lo x53 have x: "x = 2 ^ 53"
      by simp
    have "round_half_even (x / (2 / 2 ^ d)) = 2 ^ 52"
      using round_half_even_int [of "2 ^ 52"] by (simp add: x 0)
    then have "of_int (round_half_even (x / (2 / 2 ^ d))) * (2 / 2 ^ d) = x"
      by (simp add: x 0)
    with small show ?thesis
      unfolding round64_pos_powi Let_def mx ulp x_def [symmetric] by simp
  next
    case (Suc k)
    have "x / (2 / 2 ^ d) = of_int (n * 2 ^ k)"
      by (simp add: Suc x_def)
    then have "round_half_even (x / (2 / 2 ^ d)) = n * 2 ^ k"
      by (simp only: round_half_even_int)
    then have "of_int (round_half_even (x / (2 / 2 ^ d))) * (2 / 2 ^ d) = x"
      by (simp add: Suc x_def)
    with small show ?thesis
      unfolding round64_pos_powi Let_def mx ulp x_def [symmetric] by simp
  qed
qed

lemma round64_int:
  assumes "\<bar>n\<bar> \<le> 2 ^ 53"
  shows "round64 (of_int n) = Fin (of_int n)"
proof -
  consider "n = 0" | "0 < n" | "n < 0" by linarith
  then show ?thesis
  proof cases
    case 1
    then show ?thesis by (simp add: round64_def)
  next
    case 2
    with assms round64_pos_int [of n] show ?thesis
      by (simp add: round64_def)
  next
    case 3
    with assms round64_pos_int [of "- n"] show ?thesis
      by (simp add: round64_def)
  qed
qed

text \<open>
  Conversions of strings: a literal with more digits than binary64 holds, the literal
  \<open>0.1\<close>, an integer above \<open>2 ^ 53\<close>, and a literal too large and one too small
  for binary64.
\<close>

lemma Number_long_literal: "StringToNumber ''13.000000000000000001'' = Fin 13"
  by code_simp

lemma Number_tenth: "StringToNumber ''0.1'' = Fin (3602879701896397 / 36028797018963968)"
  by code_simp

lemma Number_odd_integer: "StringToNumber ''9007199254740993'' = Fin 9007199254740992"
  by code_simp

lemma parseInt_odd_integer: "parseInt '' -9007199254740993px'' = Fin (- 9007199254740992)"
  by code_simp

lemma unsigned_decimal_1e400: "unsigned_decimal ''1e400'' = Some (10 ^ 400)"
  by (simp add: unsigned_decimal_def exponent_part_def is_digit_def digits_val_def digit_val_def
      scale10_def)

lemma unsigned_decimal_1em400: "unsigned_decimal ''1e-400'' = Some (1 / 10 ^ 400)"
  by (simp add: unsigned_decimal_def exponent_part_def is_digit_def digits_val_def digit_val_def
      scale10_def)

lemma Number_overflow: "StringToNumber ''1e400'' = PInf" "StringToNumber ''-1e400'' = NInf"
proof -
  have "(2::rat) ^ 1024 \<le> 10 ^ 400"
    by simp
  then have r: "round64 (10 ^ 400) = PInf"
    by (rule round64_overflow)
  then show "StringToNumber ''1e400'' = PInf"
    by (simp add: StringToNumber_def trim_def js_ws_def unsigned_decimal_1e400)
  from r round64_neg [of "10 ^ 400"] have "round64 (- (10 ^ 400)) = NInf"
    by simp
  then show "StringToNumber ''-1e400'' = NInf"
    by (simp add: StringToNumber_def trim_def js_ws_def unsigned_decimal_1e400)
qed

lemma Number_underflow: "StringToNumber ''1e-400'' = Fin 0"
proof -
  have "(1::rat) / 10 ^ 400 \<le> 2 powi (- 1075)"
    by (simp add: power_int_minus_divide)
  then have "round64 (1 / 10 ^ 400) = Fin 0"
    by (intro round64_underflow) simp_all
  then show ?thesis
    by (simp add: StringToNumber_def trim_def js_ws_def unsigned_decimal_1em400)
qed

subsection \<open>Key sets of the assembled and the fallback records\<close>

lemma keys_of_JObj [simp]: "keys_of (JObj kvs) = fst ` set kvs"
  by (simp add: keys_of_def)

lemma keys_spread: "fst ` set (spread base extra) = fst ` set base \<union> fst ` set extra"
  by (simp add: spread_def dom_merge)

lemma AMerkfaehigkeit_keys:
  assumes "AMerkfaehigkeit_processData eng apiData a t = Some vm"
  shows "keys_of vm = keys_of (AMerkfaehigkeit_getFallbackData eng)"
  using assms
  by (auto simp: AMerkfaehigkeit_processData_def AMerkfaehigkeit_getFallbackData_def Let_def
      split: Option.bind_splits prod.splits)

lemma MZeichnen_keys:
  assumes "MZeichnen_processData eng apiData a t = Some vm"
  shows "keys_of vm = keys_of (MZeichnen_getFallbackData eng)"
  using assms
  by (auto simp: MZeichnen_processData_def MZeichnen_getFallbackData_def Let_def
      split: Option.bind_splits prod.splits)

lemma itemColors_keys:
  assumes "itemColors_of eng t = Some ic"
  shows "fst ` set ic = (if items_present eng t = Some True then item_keys else {})"
  using assms
  by (auto simp: itemColors_of_def item_keys_def Let_def split: Option.bind_splits if_splits)

lemma FigurGrundS_fallback_keys:
  "keys_of (FigurGrundS_getFallbackData eng) = base_keys \<union> item_keys"
  by (auto simp: FigurGrundS_getFallbackData_def base_keys_def item_keys_def)

lemma base_item_disjoint: "base_keys \<inter> item_keys = {}"
  by (simp add: base_keys_def item_keys_def)

lemma FigurGrundS_shape:
  assumes "FigurGrundS_processData eng apiData a t = Some vm"
  shows "\<exists>base ic. vm = JObj (spread base ic) \<and> fst ` set base = base_keys \<and>
           itemColors_of eng (default_null t) = Some ic"
  using assms
  by (auto simp: FigurGrundS_processData_def Let_def base_keys_def
      split: Option.bind_splits prod.splits)

text \<open>
  figurGrundS: the assembled record has the keys of the fallback record exactly when the
  test result carries items; without items the eight item keys are missing.
\<close>

lemma FigurGrundS_keys:
  assumes "FigurGrundS_processData eng apiData a t = Some vm"
  shows "keys_of vm =
    (if items_present eng (default_null t) = Some True
     then keys_of (FigurGrundS_getFallbackData eng)
     else keys_of (FigurGrundS_getFallbackData eng) - item_keys)"
proof -
  from FigurGrundS_shape [OF assms] obtain base ic where
    vm: "vm = JObj (spread base ic)" and base: "fst ` set base = base_keys"
    and ic: "itemColors_of eng (default_null t) = Some ic"
    by blast
  have "keys_of vm =
      base_keys \<union> (if items_present eng (default_null t) = Some True then item_keys else {})"
    by (simp add: vm keys_spread base itemColors_keys [OF ic])
  then show ?thesis
    using base_item_disjoint by (auto simp: FigurGrundS_fallback_keys)
qed

lemma ada_name: "full_name eng (JObj [(''Vorname'', JStr ''Ada'')]) = Some (JStr ''Ada'')"
  by (simp add: full_name_def get_def js_or_def trim_def js_ws_def)

lemma no_thresholds_block:
  "scoring_block eng cat key (session Null []) Null = Some (JArr [], default_scoring)"
  by (simp add: scoring_block_def session_def and_prop_def parameters_colors_def
      resolve_thresholds_def)

lemma no_items: "itemColors_of eng Null = Some []"
  by (simp add: itemColors_of_def items_present_def and_prop_def)

text \<open>
  C1. Key parity of \<open>processData\<close> and \<open>getFallbackData\<close> fails for figurGrundS: for a
  basic record, a session and no test result (\<open>null\<close>, as after a failed test-result
  call), \<open>processData\<close> returns a record, and the eight keys \<open>kuh\<close>, \<open>ente\<close>, \<open>kreis\<close>,
  \<open>dreieck\<close>, \<open>auto\<close>, \<open>haus\<close>, \<open>baum\<close>, \<open>lampe\<close> of the fallback record are not among
  its keys.
\<close>

theorem FigurGrundS_no_items_keys:
  "\<exists>vm. FigurGrundS_processData eng (JObj [(''Vorname'', JStr ''Ada'')]) (session Null []) Null =
          Some vm \<and>
        keys_of (FigurGrundS_getFallbackData eng) - keys_of vm =
          {''kuh'', ''ente'', ''kreis'', ''dreieck'', ''auto'', ''haus'', ''baum'', ''lampe''}"
proof -
  have d: "default_null (session Null []) = session Null []" "default_null Null = Null"
    by (simp_all add: default_null_def session_def)
  show ?thesis
    by (simp add: FigurGrundS_processData_def Let_def d no_thresholds_block no_items ada_name
        FigurGrundS_getFallbackData_def spread_def insert_Diff_if)
qed

text \<open>
  The same through \<open>fetchData\<close>: on a page whose test-result call fails, the record that
  figurGrundS returns has the 21 keys without the eight item keys.
\<close>

lemma FigurGrundS_fetchData_keys:
  "keys_of (fst (adapter_fetchData FigurGrundSApi engine0 net_test_fails page0)) = base_keys"
  by code_simp

subsection \<open>Missing URL parameters\<close>

text \<open>
  C7. When the \<open>token\<close> or the \<open>p_id\<close> URL parameter is absent, \<open>fetchData\<close> of any
  adapter returns the adapter's fallback record, leaves the page as it was and makes no
  request.
\<close>

theorem fetchData_without_params:
  assumes "url_token st = None \<or> url_p_id st = None"
  shows "adapter_fetchData A eng net st = (getFallbackData A eng, st, [])"
proof -
  from assms have "\<not> hasApiParams st"
    by (auto simp: hasApiParams_def url_param_def)
  then show ?thesis
    by (simp add: adapter_fetchData_def)
qed

theorem fetchData_without_params_witness:
  "adapter_fetchData AMerkfaehigkeitApi engine0 (\<lambda>r. None)
     \<lparr> url_token = None, url_p_id = Some ''17'', cache = [], authData = Null \<rparr>
   = (AMerkfaehigkeit_getFallbackData engine0,
      \<lparr> url_token = None, url_p_id = Some ''17'', cache = [], authData = Null \<rparr>, [])"
  using fetchData_without_params
    [of "\<lparr> url_token = None, url_p_id = Some ''17'', cache = [], authData = Null \<rparr>"
        AMerkfaehigkeitApi engine0 "\<lambda>r. None"]
  by (simp add: AMerkfaehigkeitApi_def)

subsection \<open>calculateAge on a birthdate that is no date\<close>

lemma split_abc: "split_on CHR ''/'' ''a/b/c'' = [''a'', ''b'', ''c'']"
  by simp

lemma parseInt_letter: "parseInt ''a'' = NaN" "parseInt ''b'' = NaN" "parseInt ''c'' = NaN"
  by (simp_all add: parseInt_def js_ws_def is_digit_def)

text \<open>
  On a string the body of the \<open>try\<close> block never throws, so the \<open>catch\<close> branch with its
  \<open>'0,0'\<close> is not reached; an Invalid Date gives \<open>'NaN,NaN'\<close>.
\<close>

lemma birth_of_string: "\<exists>d. birth_of eng (JStr s) = Some d"
  by (simp add: birth_of_def Let_def)

lemma calculateAge_invalid:
  assumes "s \<noteq> []" and "birth_of eng (JStr s) = Some InvalidDate"
  shows "calculateAge eng (JStr s) = JStr ''NaN,NaN''"
  using assms
  by (simp add: calculateAge_def calculateAge_try_def num_sub_def num_to_string_def)

text \<open>
  C9. The birthdate \<open>'a/b/c'\<close> cannot be parsed as a date (no part is a number), and
  \<open>calculateAge\<close> returns \<open>'NaN,NaN'\<close> for it, not \<open>'0,0'\<close>, whatever the engine and the
  clock.
\<close>

theorem calculateAge_unparseable:
  "calculateAge eng (JStr ''a/b/c'') = JStr ''NaN,NaN''"
  by (simp add: calculateAge_def calculateAge_try_def birth_of_def split_abc parseInt_letter
      num_sub_def num_to_string_def)

subsection \<open>The sorted thresholds and the first matching band\<close>

lemma those_map_length: "those (map f xs) = Some ys \<Longrightarrow> length ys = length xs"
  by (induction xs arbitrary: ys) (auto split: option.splits)

lemma insert_sorted_shape:
  "insert_sorted cmp x ys = Some zs \<Longrightarrow> length zs = Suc (length ys) \<and> set zs = insert x (set ys)"
  by (induction ys arbitrary: zs) (auto split: Option.bind_splits if_splits)

lemma stable_sort_shape:
  "stable_sort cmp xs = Some zs \<Longrightarrow> length zs = length xs \<and> set zs = set xs"
  by (induction xs arbitrary: zs) (auto split: Option.bind_splits dest: insert_sorted_shape)

lemma rearrange_shape: "length (rearrange rank xs) = length xs \<and> set (rearrange rank xs) = set xs"
proof -
  have "set (map snd (sort_key (\<lambda>p. rank (fst p)) (enumerate 0 xs))) =
          set (map snd (enumerate 0 xs))"
    by (simp only: set_map set_sort)
  then show ?thesis
    by (simp add: rearrange_def)
qed

lemma js_sort_shape:
  "js_sort eng cmp xs = Some zs \<Longrightarrow> length zs = length xs \<and> set zs = set xs"
  using stable_sort_shape [of cmp xs zs] rearrange_shape [of _ xs]
  by (auto simp: js_sort_def split: if_splits)

lemma finite_levelD:
  "finite_level eng t \<Longrightarrow> \<exists>l. Number_js eng (js_prop t ''level'') = Some (Fin l)"
  by (auto simp: finite_level_def level_of_def split: option.splits jsnum.splits)

lemma level_cmp_finite:
  assumes "Number_js eng (js_prop a ''level'') = Some (Fin k)"
    and "Number_js eng (js_prop b ''level'') = Some (Fin l)"
  shows "level_cmp eng a b = Some (Fin (k - l))"
  using assms by (simp add: level_cmp_def num_sub_def)

lemma level_le_finite:
  assumes "Number_js eng (js_prop a ''level'') = Some (Fin k)"
    and "Number_js eng (js_prop b ''level'') = Some (Fin l)"
  shows "level_le eng a b \<longleftrightarrow> k \<le> l"
  using assms by (simp add: level_le_def level_of_def)

lemma level_le_trans:
  assumes "finite_level eng a" "finite_level eng b" "finite_level eng c"
    and "level_le eng a b" "level_le eng b c"
  shows "level_le eng a c"
proof -
  from assms(1-3) obtain k l m where
    "Number_js eng (js_prop a ''level'') = Some (Fin k)"
    "Number_js eng (js_prop b ''level'') = Some (Fin l)"
    "Number_js eng (js_prop c ''level'') = Some (Fin m)"
    by (auto dest!: finite_levelD)
  with assms(4,5) show ?thesis
    by (simp add: level_le_finite)
qed

lemma insert_sorted_levels:
  assumes "finite_level eng x" and "list_all (finite_level eng) ys"
    and "sorted_wrt (level_le eng) ys"
  shows "\<exists>zs. insert_sorted (level_cmp eng) x ys = Some zs \<and> sorted_wrt (level_le eng) zs"
  using assms(2,3)
proof (induction ys)
  case Nil
  then show ?case by simp
next
  case (Cons y ys)
  from assms(1) obtain k where k: "Number_js eng (js_prop x ''level'') = Some (Fin k)"
    by (auto dest: finite_levelD)
  from Cons.prems(1) obtain l where l: "Number_js eng (js_prop y ''level'') = Some (Fin l)"
    by (auto dest: finite_levelD)
  have cmp: "level_cmp eng x y = Some (Fin (k - l))"
    by (rule level_cmp_finite [OF k l])
  show ?case
  proof (cases "l < k")
    case True
    from Cons obtain zs where zs: "insert_sorted (level_cmp eng) x ys = Some zs"
      and szs: "sorted_wrt (level_le eng) zs"
      by auto
    have "set zs = insert x (set ys)"
      using insert_sorted_shape [OF zs] by simp
    moreover have "level_le eng y x"
      using True by (simp add: level_le_finite [OF l k])
    ultimately have "\<forall>z\<in>set zs. level_le eng y z"
      using Cons.prems(2) by auto
    with szs True show ?thesis
      by (simp add: cmp zs)
  next
    case False
    then have xy: "level_le eng x y"
      by (simp add: level_le_finite [OF k l])
    have "\<forall>z\<in>set ys. level_le eng x z"
    proof
      fix z assume z: "z \<in> set ys"
      with Cons.prems(2) have "level_le eng y z" by simp
      moreover from z Cons.prems(1) have "finite_level eng z"
        by (simp add: list_all_iff)
      moreover from Cons.prems(1) have "finite_level eng y" by simp
      ultimately show "level_le eng x z"
        using level_le_trans [OF assms(1) _ _ xy] by blast
    qed
    with False xy Cons.prems(2) show ?thesis
      by (simp add: cmp)
  qed
qed

lemma stable_sort_levels:
  assumes "list_all (finite_level eng) xs"
  shows "\<exists>zs. stable_sort (level_cmp eng) xs = Some zs \<and> sorted_wrt (level_le eng) zs"
  using assms
proof (induction xs)
  case Nil
  then show ?case by simp
next
  case (Cons x xs)
  then obtain ys where ys: "stable_sort (level_cmp eng) xs = Some ys"
    and sys: "sorted_wrt (level_le eng) ys"
    by auto
  have "set ys = set xs"
    using stable_sort_shape [OF ys] by simp
  with Cons.prems have "list_all (finite_level eng) ys"
    by (simp add: list_all_iff)
  from insert_sorted_levels [OF _ this sys, of x] Cons.prems show ?case
    by (simp add: ys)
qed

lemma comparable_levels:
  assumes "list_all (finite_level eng) xs"
  shows "comparable (level_cmp eng) xs"
proof -
  have "level_cmp eng a b \<noteq> Some NaN" if "a \<in> set xs" and "b \<in> set xs" for a b
  proof -
    from that assms have "finite_level eng a" "finite_level eng b"
      by (simp_all add: list_all_iff)
    then obtain k l where
      "Number_js eng (js_prop a ''level'') = Some (Fin k)"
      "Number_js eng (js_prop b ''level'') = Some (Fin l)"
      by (auto dest!: finite_levelD)
    then show ?thesis
      by (simp add: level_cmp_finite)
  qed
  then show ?thesis
    by (simp add: comparable_def list_all_iff)
qed

text \<open>
  Thresholds whose levels are finite numbers are sorted as the stable insertion sort
  sorts them, in ascending level order, whatever the engine.
\<close>

lemma js_sort_levels:
  assumes "list_all (finite_level eng) xs"
  shows "js_sort eng (level_cmp eng) xs = stable_sort (level_cmp eng) xs \<and>
         (\<exists>zs. js_sort eng (level_cmp eng) xs = Some zs \<and> sorted_wrt (level_le eng) zs)"
  using stable_sort_levels [OF assms] comparable_levels [OF assms]
  by (simp add: js_sort_def)

lemma find_band_first:
  assumes "find_band eng score ts = Some (Some t)"
  shows "\<exists>i<length ts. ts ! i = t \<and> band_contains eng score t \<and>
           (\<forall>j<i. \<not> band_contains eng score (ts ! j))"
  using assms
proof (induction ts)
  case Nil
  then show ?case by simp
next
  case (Cons u ts)
  then obtain b where b: "band eng u = Some b"
    by (auto split: Option.bind_splits)
  show ?case
  proof (cases "in_band score b")
    case True
    with Cons.prems b have "u = t" by simp
    with True b have "(u # ts) ! 0 = t \<and> band_contains eng score t" 
      by (simp add: band_contains_def)
    then show ?thesis by (intro exI [of _ 0]) simp
  next
    case False
    with Cons b obtain i where i: "i < length ts" "ts ! i = t" "band_contains eng score t"
      "\<forall>j<i. \<not> band_contains eng score (ts ! j)"
      by auto
    have "\<forall>j<Suc i. \<not> band_contains eng score ((u # ts) ! j)"
    proof (intro allI impI)
      fix j assume "j < Suc i"
      then show "\<not> band_contains eng score ((u # ts) ! j)"
        using i(4) False b by (cases j) (simp_all add: band_contains_def)
    qed
    with i(1-3) show ?thesis
      by (intro exI [of _ "Suc i"]) simp
  qed
qed

lemma find_band_none:
  assumes "find_band eng score ts = Some None"
  shows "\<forall>u\<in>set ts. \<not> band_contains eng score u"
  using assms
  by (induction ts) (auto simp: band_contains_def split: Option.bind_splits if_splits)

lemma sorted_wrt_nth_le:
  assumes "sorted_wrt P xs" and "i < j" and "j < length xs"
  shows "P (xs ! i) (xs ! j)"
  using assms by (simp add: sorted_wrt_iff_nth_less)

lemma resolve_sufficient:
  assumes "resolve_thresholds eng cat key (JArr ts) t = Some sc"
    and "filter_category cat ts = Some m" and "6 \<le> length m"
  shows "\<exists>sorted rs score mt.
           js_sort eng (level_cmp eng) m = Some sorted \<and>
           those (map (range_of eng) sorted) = Some rs \<and>
           score_of eng key t = Some score \<and>
           find_band eng score sorted = Some mt \<and>
           ranges_v sc = JArr rs \<and> assessment_v sc = assessment_of mt"
  using assms
  by (auto simp: resolve_thresholds_def Let_def split: Option.bind_splits)

lemma resolve_insufficient:
  assumes "resolve_thresholds eng cat key (JArr ts) t = Some sc"
    and "filter_category cat ts = Some m" and "length m < 6"
  shows "sc = default_scoring"
  using assms
  by (auto simp: resolve_thresholds_def Let_def split: Option.bind_splits)

lemma level_le_refl: "finite_level eng t \<Longrightarrow> level_le eng t t"
  by (auto dest!: finite_levelD simp: level_le_def level_of_def)

text \<open>
  The classifier on the sorted thresholds: when at least six thresholds match and their
  levels are finite numbers, the thresholds are put in ascending level order and the
  first one whose inclusive band contains the score gives the assessment.
\<close>

lemma first_match_resolved:
  assumes res: "resolve_thresholds eng cat key (JArr ts) testResults = Some sc"
    and m: "filter_category cat ts = Some matching"
    and six: "6 \<le> length matching"
    and fin: "list_all (finite_level eng) matching"
  shows "\<exists>sortedThresholds score.
           js_sort eng (level_cmp eng) matching = Some sortedThresholds \<and>
           set sortedThresholds = set matching \<and>
           sorted_wrt (level_le eng) sortedThresholds \<and>
           score_of eng key testResults = Some score \<and>
           ((\<exists>i<length sortedThresholds.
               band_contains eng score (sortedThresholds ! i) \<and>
               (\<forall>j<i. \<not> band_contains eng score (sortedThresholds ! j)) \<and>
               (\<forall>u\<in>set matching. band_contains eng score u \<longrightarrow>
                  level_le eng (sortedThresholds ! i) u) \<and>
               assessment_v sc = assessment_of (Some (sortedThresholds ! i)))
            \<or> ((\<forall>u\<in>set matching. \<not> band_contains eng score u) \<and>
                assessment_v sc = JStr ''''))"
proof -
  from resolve_sufficient [OF res m six] obtain sorted score mt where
    sorted: "js_sort eng (level_cmp eng) matching = Some sorted"
    and score: "score_of eng key testResults = Some score"
    and mt: "find_band eng score sorted = Some mt"
    and a: "assessment_v sc = assessment_of mt"
    by blast
  from js_sort_levels [OF fin] sorted have sw: "sorted_wrt (level_le eng) sorted"
    by simp
  from js_sort_shape [OF sorted] have set_eq: "set sorted = set matching"
    by simp
  have finl: "\<And>u. u \<in> set sorted \<Longrightarrow> finite_level eng u"
    using fin set_eq by (simp add: list_all_iff)
  have "(\<exists>i<length sorted.
               band_contains eng score (sorted ! i) \<and>
               (\<forall>j<i. \<not> band_contains eng score (sorted ! j)) \<and>
               (\<forall>u\<in>set matching. band_contains eng score u \<longrightarrow> level_le eng (sorted ! i) u) \<and>
               assessment_v sc = assessment_of (Some (sorted ! i)))
            \<or> ((\<forall>u\<in>set matching. \<not> band_contains eng score u) \<and> assessment_v sc = JStr '''')"
  proof (cases mt)
    case None
    with mt find_band_none [of eng score sorted] a set_eq show ?thesis
      by (simp add: assessment_of_def)
  next
    case (Some t)
    with mt find_band_first [of eng score sorted t] obtain i where
      i: "i < length sorted" "sorted ! i = t" "band_contains eng score t"
      "\<forall>j<i. \<not> band_contains eng score (sorted ! j)"
      by auto
    have low: "\<forall>u\<in>set matching. band_contains eng score u \<longrightarrow> level_le eng (sorted ! i) u"
    proof (intro ballI impI)
      fix u assume u: "u \<in> set matching" and c: "band_contains eng score u"
      from u set_eq have "u \<in> set sorted" by simp
      then obtain j where j: "j < length sorted" "sorted ! j = u"
        by (auto simp: in_set_conv_nth)
      with c i(4) have "\<not> j < i" by auto
      then consider "j = i" | "i < j" by linarith
      then show "level_le eng (sorted ! i) u"
      proof cases
        case 1
        with j i(1) finl show ?thesis
          by (auto intro: level_le_refl)
      next
        case 2
        from sorted_wrt_nth_le [OF sw 2 j(1)] j(2) show ?thesis by simp
      qed
    qed
    from i low a Some show ?thesis
      by auto
  qed
  with sorted set_eq sw score show ?thesis
    by blast
qed

subsection \<open>What the resolver checks\<close>

text \<open>
  C4 (as amended). The resolver checks one thing, that at least six thresholds match the
  category; it checks neither that there are exactly six nor what their levels are. It
  derives a result other than the default exactly when at least six match, and \<open>ranges\<close>
  then has one entry for each matching threshold; otherwise \<open>ranges\<close> is empty.
\<close>

theorem resolver_counts_only:
  assumes res: "resolve_thresholds eng cat key (JArr ts) testResults = Some sc"
    and m: "filter_category cat ts = Some matching"
  shows "(sc \<noteq> default_scoring) = (6 \<le> length matching) \<and>
         (\<exists>rs. ranges_v sc = JArr rs \<and>
               length rs = (if 6 \<le> length matching then length matching else 0))"
proof (cases "6 \<le> length matching")
  case True
  from resolve_sufficient [OF res m True] obtain sorted rs where
    sorted: "js_sort eng (level_cmp eng) matching = Some sorted"
    and rs: "those (map (range_of eng) sorted) = Some rs"
    and r: "ranges_v sc = JArr rs"
    by blast
  have len: "length rs = length matching"
    using those_map_length [OF rs] js_sort_shape [OF sorted] by simp
  with True have "rs \<noteq> []" by auto
  with r have "sc \<noteq> default_scoring"
    by (auto simp: default_scoring_def)
  with True r len show ?thesis by simp
next
  case False
  then have "length matching < 6" by simp
  from resolve_insufficient [OF res m this] False show ?thesis
    by (simp add: default_scoring_def)
qed

lemma seven_filter:
  "filter_category ''Mensch Zeichnen'' (seven_level1 ''Mensch Zeichnen'') =
     Some (seven_level1 ''Mensch Zeichnen'')"
  by (simp add: seven_level1_def threshold_def get_def)

lemma seven_resolved:
  "resolve_thresholds engine0 ''Mensch Zeichnen'' ''mz_score''
     (JArr (seven_level1 ''Mensch Zeichnen'')) Null
   = Some \<lparr> min_v = JNum (Fin 2), max_v = JNum (Fin 13),
            ranges_v = JArr [range_obj 2 5, range_obj 2 5, range_obj 2 5, range_obj 2 5,
                             range_obj 2 5, range_obj 2 5, range_obj 2 5],
            assessment_v = JStr '''' \<rparr>"
  by code_simp

theorem resolver_counts_only_witness:
  "resolve_thresholds engine0 ''Mensch Zeichnen'' ''mz_score''
     (JArr (seven_level1 ''Mensch Zeichnen'')) Null
   = Some \<lparr> min_v = JNum (Fin 2), max_v = JNum (Fin 13),
            ranges_v = JArr [range_obj 2 5, range_obj 2 5, range_obj 2 5, range_obj 2 5,
                             range_obj 2 5, range_obj 2 5, range_obj 2 5],
            assessment_v = JStr '''' \<rparr> \<and>
   filter_category ''Mensch Zeichnen'' (seven_level1 ''Mensch Zeichnen'') =
     Some (seven_level1 ''Mensch Zeichnen'') \<and>
   length (seven_level1 ''Mensch Zeichnen'') = 7 \<and>
   \<lparr> min_v = JNum (Fin 2), max_v = JNum (Fin 13),
     ranges_v = JArr [range_obj 2 5, range_obj 2 5, range_obj 2 5, range_obj 2 5,
                      range_obj 2 5, range_obj 2 5, range_obj 2 5],
     assessment_v = JStr '''' \<rparr> \<noteq> default_scoring"
  using resolver_counts_only [OF seven_resolved seven_filter] seven_resolved seven_filter
  by (simp add: seven_level1_def)

text \<open>
  Seven thresholds of the category, all of level 1: the result is not the default one
  (\<open>min\<close> is 2) and \<open>ranges\<close> has seven entries.
\<close>

theorem resolver_seven_same_level:
  "result_field ''ranges''
     (MZeichnen_processData engine0 (JObj [])
        (session Null (seven_level1 ''Mensch Zeichnen'')) Null)
   = Some (JArr [range_obj 2 5, range_obj 2 5, range_obj 2 5, range_obj 2 5,
                 range_obj 2 5, range_obj 2 5, range_obj 2 5]) \<and>
   result_field ''min''
     (MZeichnen_processData engine0 (JObj [])
        (session Null (seven_level1 ''Mensch Zeichnen'')) Null)
   = Some (JNum (Fin 2)) \<and>
   filter_category ''Mensch Zeichnen'' (seven_level1 ''Mensch Zeichnen'') =
     Some (seven_level1 ''Mensch Zeichnen'') \<and>
   map (level_of engine0) (seven_level1 ''Mensch Zeichnen'') =
     [Some (Fin 1), Some (Fin 1), Some (Fin 1), Some (Fin 1), Some (Fin 1), Some (Fin 1),
      Some (Fin 1)]"
  by code_simp

subsection \<open>From a record back to the scoring block\<close>

lemma AMerkfaehigkeit_fields:
  assumes "AMerkfaehigkeit_processData eng apiData a t = Some vm"
  shows "\<exists>colors sc.
           scoring_block eng AM_category ''spseq_score'' (default_null a) (default_null t) =
             Some (colors, sc) \<and>
           js_prop vm ''min'' = min_v sc \<and> js_prop vm ''max'' = max_v sc \<and>
           js_prop vm ''ranges'' = ranges_v sc \<and> js_prop vm ''colors'' = colors \<and>
           js_prop vm ''assessment'' = assessment_v sc \<and>
           js_prop vm ''score'' = score_field ''spseq_score'' (default_null t)"
  using assms
  by (auto simp: AMerkfaehigkeit_processData_def Let_def split: Option.bind_splits prod.splits)

lemma MZeichnen_fields:
  assumes "MZeichnen_processData eng apiData a t = Some vm"
  shows "\<exists>colors sc.
           scoring_block eng ''Mensch Zeichnen'' ''mz_score'' (default_null a) (default_null t) =
             Some (colors, sc) \<and>
           js_prop vm ''min'' = min_v sc \<and> js_prop vm ''max'' = max_v sc \<and>
           js_prop vm ''ranges'' = ranges_v sc \<and> js_prop vm ''colors'' = colors \<and>
           js_prop vm ''assessment'' = assessment_v sc \<and>
           js_prop vm ''score'' = score_field ''mz_score'' (default_null t)"
  using assms
  by (auto simp: MZeichnen_processData_def Let_def split: Option.bind_splits prod.splits)

lemma js_prop_JArr_obj: "js_prop v k = JArr xs \<Longrightarrow> \<exists>kvs. v = JObj kvs"
  by (cases v) (auto split: if_splits)

lemma js_prop_JObj_obj: "js_prop v k = JObj x \<Longrightarrow> \<exists>kvs. v = JObj kvs"
  by (cases v) (auto split: if_splits)

lemma scoring_block_thresholds:
  assumes sb: "scoring_block eng cat key a t = Some (colors, sc)"
    and ths: "js_prop (js_prop a ''parameters'') ''edulog_thresholds'' = JArr ts"
  shows "parameters_colors (js_prop (js_prop a ''parameters'') ''colors'') = Some colors \<and>
         resolve_thresholds eng cat key (JArr ts) t = Some sc"
proof -
  from js_prop_JArr_obj [OF ths] obtain ps where ps: "js_prop a ''parameters'' = JObj ps"
    by blast
  from js_prop_JObj_obj [OF ps] obtain kvs where a: "a = JObj kvs"
    by blast
  from a ps have "truthy (and_prop a ''parameters'')"
    by (simp add: and_prop_def)
  with sb ths ps show ?thesis
    by (auto simp: scoring_block_def Let_def split: Option.bind_splits)
qed

lemma default_null_obj: "js_prop (js_prop a k) k' = JArr ts \<Longrightarrow> default_null a = a"
  by (cases a) (auto simp: default_null_def)

subsection \<open>Fewer than six matching thresholds\<close>

text \<open>
  C2 (as amended). When the session's threshold collection has fewer than six entries of
  the adapter's category, the record assembled by aMerkfaehigkeit has \<open>min\<close> 0, \<open>max\<close> 13,
  empty \<open>ranges\<close> and an empty \<open>assessment\<close>. Its \<open>colors\<close> do not depend on the
  thresholds: they are the normalised \<open>parameters.colors\<close> of the session.
\<close>

theorem insufficient_thresholds_defaults:
  assumes vm: "AMerkfaehigkeit_processData eng apiData a t = Some vm"
    and ths: "js_prop (js_prop a ''parameters'') ''edulog_thresholds'' = JArr ts"
    and m: "filter_category AM_category ts = Some matching"
    and few: "length matching < 6"
  shows "js_prop vm ''min'' = JNum (Fin 0) \<and> js_prop vm ''max'' = JNum (Fin 13) \<and>
         js_prop vm ''ranges'' = JArr [] \<and> js_prop vm ''assessment'' = JStr '''' \<and>
         parameters_colors (js_prop (js_prop a ''parameters'') ''colors'') =
           Some (js_prop vm ''colors'')"
proof -
  from AMerkfaehigkeit_fields [OF vm] obtain colors sc where
    sb: "scoring_block eng AM_category ''spseq_score'' a (default_null t) = Some (colors, sc)"
    and f: "js_prop vm ''min'' = min_v sc" "js_prop vm ''max'' = max_v sc"
      "js_prop vm ''ranges'' = ranges_v sc" "js_prop vm ''colors'' = colors"
      "js_prop vm ''assessment'' = assessment_v sc"
    by (auto simp: default_null_obj [OF ths])
  from scoring_block_thresholds [OF sb ths] have
    c: "parameters_colors (js_prop (js_prop a ''parameters'') ''colors'') = Some colors"
    and r: "resolve_thresholds eng AM_category ''spseq_score'' (JArr ts) (default_null t) = Some sc"
    by simp_all
  from resolve_insufficient [OF r m few] have "sc = default_scoring" .
  with f c show ?thesis
    by (simp add: default_scoring_def)
qed

lemma mixed_filter:
  "filter_category AM_category mixed = Some (take 5 (overlapping AM_category))"
  by code_simp

lemma AM_few_processed:
  "AMerkfaehigkeit_processData engine0 (JObj []) (session (JArr [JStr ''#ed1b06'']) mixed) Null =
     Some (JObj
          [(''name'', JStr ''''),
           (''lang'', JStr ''''),
           (''birthdate'', JStr ''''),
           (''age'', JStr ''''),
           (''since'', Undefined),
           (''date'', JStr ''1.6.2024''),
           (''teacher'', JStr ''''),
           (''company'', JStr ''Kita''),
           (''testResults'', Null),
           (''min'', JNum (Fin 0)),
           (''max'', JNum (Fin 13)),
           (''score'', JNum (Fin 0)),
           (''colors'', JArr [JStr ''#ed1b06'']),
           (''ranges'', JArr []),
           (''assessment'', JStr ''''),
           (''label1'', JStr ''UNKNOWN''),
           (''label2'', JStr ''UNKNOWN''),
           (''label3'', JStr ''UNKNOWN''),
           (''label4'', JStr ''UNKNOWN''),
           (''subgray'', JStr ''UNKNOWN''),
           (''subgreen'', JStr ''UNKNOWN''),
           (''subsplit'', JStr ''UNKNOWN''),
           (''submin'', JNum (Fin 0)),
           (''submax'', JNum (Fin 13)),
           (''cellColors'', JArr [])])"
  by code_simp

theorem insufficient_thresholds_defaults_witness:
  "js_prop (js_prop (session (JArr [JStr ''#ed1b06'']) mixed) ''parameters'') ''edulog_thresholds'' =
     JArr mixed \<and>
   filter_category AM_category mixed = Some (take 5 (overlapping AM_category)) \<and>
   result_field ''min''
     (AMerkfaehigkeit_processData engine0 (JObj []) (session (JArr [JStr ''#ed1b06'']) mixed) Null)
     = Some (JNum (Fin 0)) \<and>
   result_field ''max''
     (AMerkfaehigkeit_processData engine0 (JObj []) (session (JArr [JStr ''#ed1b06'']) mixed) Null)
     = Some (JNum (Fin 13)) \<and>
   result_field ''ranges''
     (AMerkfaehigkeit_processData engine0 (JObj []) (session (JArr [JStr ''#ed1b06'']) mixed) Null)
     = Some (JArr []) \<and>
   result_field ''assessment''
     (AMerkfaehigkeit_processData engine0 (JObj []) (session (JArr [JStr ''#ed1b06'']) mixed) Null)
     = Some (JStr '''') \<and>
   parameters_colors
     (js_prop (js_prop (session (JArr [JStr ''#ed1b06'']) mixed) ''parameters'') ''colors'') =
     result_field ''colors''
       (AMerkfaehigkeit_processData engine0 (JObj []) (session (JArr [JStr ''#ed1b06'']) mixed) Null)"
proof -
  have ths: "js_prop (js_prop (session (JArr [JStr ''#ed1b06'']) mixed) ''parameters'')
               ''edulog_thresholds'' = JArr mixed"
    by (simp add: session_def)
  note m = mixed_filter
  have few: "length (take 5 (overlapping AM_category)) < 6"
    by simp
  from insufficient_thresholds_defaults [OF AM_few_processed ths m few] ths m
  show ?thesis
    by (simp add: AM_few_processed result_field_def)
qed

text \<open>
  A session whose thresholds hold five entries of the category (and six of another) and
  whose \<open>parameters.colors\<close> is \<open>['#ed1b06']\<close>: the assembled \<open>colors\<close> is not empty.
\<close>

theorem insufficient_thresholds_colors:
  "result_field ''colors''
     (AMerkfaehigkeit_processData engine0 (JObj []) (session (JArr [JStr ''#ed1b06'']) mixed) Null)
   = Some (JArr [JStr ''#ed1b06'']) \<and>
   js_prop (js_prop (session (JArr [JStr ''#ed1b06'']) mixed) ''parameters'') ''edulog_thresholds'' =
     JArr mixed \<and>
   filter_category AM_category mixed = Some (take 5 (overlapping AM_category))"
proof -
  have "js_prop (js_prop (session (JArr [JStr ''#ed1b06'']) mixed) ''parameters'')
          ''edulog_thresholds'' = JArr mixed"
    by (simp add: session_def)
  then show ?thesis
    by (simp add: AM_few_processed result_field_def mixed_filter)
qed

subsection \<open>The score the classifier works on\<close>

lemma truthy_and_prop: "truthy (and_prop t k) = truthy (js_prop t k)"
  by (cases t) (auto simp: and_prop_def)

lemma score_of_cases:
  "score_of eng key t =
     (if truthy (js_prop t key) then Number_js eng (js_prop t key) else Some (Fin 0))"
  by (simp add: score_of_def truthy_and_prop)

lemma in_band_NaN: "\<not> in_band NaN b"
  by (cases "fst b") (simp_all add: in_band_def)

lemma find_band_NaN: "find_band eng NaN ts = Some mt \<Longrightarrow> mt = None"
  by (induction ts) (auto simp: in_band_NaN split: Option.bind_splits)

text \<open>
  C5 (as amended). With at least six matching thresholds, the classifier of
  aMerkfaehigkeit works on the score 0 when the score field is absent or falsy, and on
  \<open>Number(field)\<close> otherwise; the assessment is that of the first band of the sorted
  thresholds containing this score. A truthy field that is not numeric gives \<open>NaN\<close>,
  which no band contains, and the assessment is then empty (it is not classified as 0).
\<close>

theorem score_coercion:
  assumes vm: "AMerkfaehigkeit_processData eng apiData a t = Some vm"
    and ths: "js_prop (js_prop a ''parameters'') ''edulog_thresholds'' = JArr ts"
    and m: "filter_category AM_category ts = Some matching"
    and six: "6 \<le> length matching"
  shows "\<exists>sortedThresholds score mt.
           js_sort eng (level_cmp eng) matching = Some sortedThresholds \<and>
           (if truthy (js_prop (default_null t) ''spseq_score'')
            then Number_js eng (js_prop (default_null t) ''spseq_score'') = Some score
            else score = Fin 0) \<and>
           find_band eng score sortedThresholds = Some mt \<and>
           js_prop vm ''assessment'' = assessment_of mt \<and>
           (score = NaN \<longrightarrow> js_prop vm ''assessment'' = JStr '''')"
proof -
  from AMerkfaehigkeit_fields [OF vm] obtain colors sc where
    sb: "scoring_block eng AM_category ''spseq_score'' a (default_null t) = Some (colors, sc)"
    and f: "js_prop vm ''assessment'' = assessment_v sc"
    by (auto simp: default_null_obj [OF ths])
  from scoring_block_thresholds [OF sb ths] have
    r: "resolve_thresholds eng AM_category ''spseq_score'' (JArr ts) (default_null t) = Some sc"
    by simp
  from resolve_sufficient [OF r m six] obtain sorted score mt where
    sorted: "js_sort eng (level_cmp eng) matching = Some sorted"
    and score: "score_of eng ''spseq_score'' (default_null t) = Some score"
    and mt: "find_band eng score sorted = Some mt"
    and a: "assessment_v sc = assessment_of mt"
    by blast
  from score have sc_if: "if truthy (js_prop (default_null t) ''spseq_score'')
            then Number_js eng (js_prop (default_null t) ''spseq_score'') = Some score
            else score = Fin 0"
    by (auto simp: score_of_cases split: if_splits)
  have "score = NaN \<longrightarrow> js_prop vm ''assessment'' = JStr ''''"
    using mt a f by (auto dest: find_band_NaN simp: assessment_of_def)
  with sorted sc_if mt a f show ?thesis
    by auto
qed

lemma AM_abc_processed:
  "result_field ''assessment''
     (AMerkfaehigkeit_processData engine0 (JObj []) (session Null (overlapping AM_category))
        (JObj [(''spseq_score'', JStr ''abc'')])) = Some (JStr '''')"
  by code_simp

lemma AM_zero_processed:
  "result_field ''assessment''
     (AMerkfaehigkeit_processData engine0 (JObj []) (session Null (overlapping AM_category))
        (JObj [(''spseq_score'', JNum (Fin 0))])) = Some (JStr ''a'')"
  by code_simp

text \<open>
  The score field \<open>'abc'\<close> against thresholds whose level 1 band (0 to 3, described
  \<open>a\<close>) contains 0: the assessment is empty, while the score 0 is assessed \<open>a\<close>.
\<close>

theorem score_not_numeric:
  "result_field ''assessment''
     (AMerkfaehigkeit_processData engine0 (JObj []) (session Null (overlapping AM_category))
        (JObj [(''spseq_score'', JStr ''abc'')])) = Some (JStr '''') \<and>
   result_field ''assessment''
     (AMerkfaehigkeit_processData engine0 (JObj []) (session Null (overlapping AM_category))
        (JObj [(''spseq_score'', JNum (Fin 0))])) = Some (JStr ''a'') \<and>
   band_contains engine0 (Fin 0) (threshold AM_category 1 0 3 ''a'')"
  using AM_abc_processed AM_zero_processed
  by (simp add: band_contains_def band_def threshold_def num_or0_def in_band_def)

lemma overlapping_AM_filter:
  "filter_category AM_category (overlapping AM_category) = Some (overlapping AM_category)"
  by code_simp

theorem score_coercion_witness:
  "(\<exists>vm. AMerkfaehigkeit_processData engine0 (JObj []) (session Null (overlapping AM_category))
            (JObj [(''spseq_score'', JStr ''abc'')]) = Some vm) \<and>
   js_prop (js_prop (session Null (overlapping AM_category)) ''parameters'') ''edulog_thresholds'' =
     JArr (overlapping AM_category) \<and>
   filter_category AM_category (overlapping AM_category) = Some (overlapping AM_category) \<and>
   6 \<le> length (overlapping AM_category) \<and>
   truthy (JStr ''abc'') \<and>
   Number_js engine0 (JStr ''abc'') = Some NaN \<and>
   result_field ''assessment''
     (AMerkfaehigkeit_processData engine0 (JObj []) (session Null (overlapping AM_category))
        (JObj [(''spseq_score'', JStr ''abc'')])) = Some (JStr '''')"
proof -
  from AM_abc_processed obtain vm where
    vm: "AMerkfaehigkeit_processData engine0 (JObj []) (session Null (overlapping AM_category))
           (JObj [(''spseq_score'', JStr ''abc'')]) = Some vm"
    by (auto simp: result_field_def split: option.splits)
  have ths: "js_prop (js_prop (session Null (overlapping AM_category)) ''parameters'')
               ''edulog_thresholds'' = JArr (overlapping AM_category)"
    by (simp add: session_def)
  note m = overlapping_AM_filter
  have six: "6 \<le> length (overlapping AM_category)"
    by (simp add: overlapping_def)
  have n: "Number_js engine0 (JStr ''abc'') = Some NaN"
    by (simp add: StringToNumber_def trim_def js_ws_def unsigned_decimal_def is_digit_def)
  from score_coercion [OF vm ths m six] obtain score where
    "Number_js engine0 (JStr ''abc'') = Some score"
    and "score = NaN \<longrightarrow> js_prop vm ''assessment'' = JStr ''''"
    by (auto simp: default_null_def)
  with n have "js_prop vm ''assessment'' = JStr ''''"
    by simp
  with vm ths m six n show ?thesis
    by (simp add: result_field_def)
qed

subsection \<open>The colors of the grid\<close>

lemma map_of_spread: "map_of (spread base extra) = map_of base ++ map_of extra"
  by (simp add: spread_def merge_conv')











subsection \<open>A failed basic-data call and a failed test-result call\<close>

lemma score_of_Null: "score_of eng key Null = Some (Fin 0)"
  by (simp add: score_of_def and_prop_def)

lemma score_of_zero: "score_of eng key (JObj [(key, JNum (Fin 0))]) = Some (Fin 0)"
  by (simp add: score_of_def and_prop_def)

lemma null_result_as_zero:
  "scoring_block eng cat key a (JObj [(key, JNum (Fin 0))]) = scoring_block eng cat key a Null"
  unfolding scoring_block_def resolve_thresholds_def score_of_Null score_of_zero
  by (rule refl)

lemma default_null_simps:
  "default_null Null = Null" "default_null (JObj kvs) = JObj kvs"
  by (simp_all add: default_null_def)

lemma AMerkfaehigkeit_null_result:
  assumes "AMerkfaehigkeit_processData eng apiData a Null = Some vm"
  shows "js_prop vm ''score'' = JNum (Fin 0) \<and>
         result_field ''assessment''
           (AMerkfaehigkeit_processData eng apiData a (JObj [(''spseq_score'', JNum (Fin 0))])) =
         Some (js_prop vm ''assessment'')"
proof -
  have c: "cellColors_of eng (JObj [(''spseq_score'', JNum (Fin 0))]) = cellColors_of eng Null"
    by (simp add: cellColors_of_def items_present_def and_prop_def)
  from assms show ?thesis
    by (auto simp: AMerkfaehigkeit_processData_def Let_def default_null_simps c
        null_result_as_zero score_field_def and_prop_def result_field_def
        split: Option.bind_splits prod.splits)
qed

lemma MZeichnen_null_result:
  assumes "MZeichnen_processData eng apiData a Null = Some vm"
  shows "js_prop vm ''score'' = JNum (Fin 0) \<and>
         result_field ''assessment''
           (MZeichnen_processData eng apiData a (JObj [(''mz_score'', JNum (Fin 0))])) =
         Some (js_prop vm ''assessment'')"
  using assms
  by (auto simp: MZeichnen_processData_def Let_def default_null_simps
      null_result_as_zero score_field_def and_prop_def result_field_def
      split: Option.bind_splits prod.splits)

text \<open>
  C8 (as amended). With both URL parameters, no cached record, a session and an identity
  parameter: a basic-data response that is not \<open>ok\<close> makes \<open>fetchData\<close> return the
  fallback record, and the test-result call is not made. A test-result response that is
  not \<open>ok\<close> does not: \<open>processData\<close> is called with \<open>null\<close> for the test result, and its
  record is returned and cached (the fallback record only if \<open>processData\<close> throws). In
  that record, for aMerkfaehigkeit and mZeichnen, the score is 0 and the assessment is
  the one a test result with the score 0 gets; it is empty only when no band of the
  thresholds contains 0.
\<close>

theorem fetchData_failed_calls:
  assumes token: "url_token st = Some token" and p_id: "url_p_id st = Some p_id"
    and params: "hasApiParams st"
    and miss: "map_of (cache st) (cache_prefix A @ p_id @ ''_'' @ token) = None"
    and auth: "authenticate net st = (Some a, st1, tr1)"
    and idp: "id_param_of eng a = Some idp"
  shows "(\<forall>body. net (ViewAllData p_id idp token) = Some (Response False body) \<longrightarrow>
            adapter_fetchData A eng net st =
              (getFallbackData A eng, st1, tr1 @ [ViewAllData p_id idp token])) \<and>
         (\<forall>data d0 body.
            net (ViewAllData p_id idp token) = Some (Response True (Some data)) \<and>
            get_index data 0 = Some d0 \<and>
            net (ViewData p_id token) = Some (Response False body) \<longrightarrow>
            adapter_fetchData A eng net st =
              (case processData A eng (js_or d0 data) a Null of
                 None \<Rightarrow>
                   (getFallbackData A eng, st1,
                    tr1 @ [ViewAllData p_id idp token, ViewData p_id token])
               | Some vm \<Rightarrow>
                   (vm,
                    st1\<lparr>cache := AList.update (cache_prefix A @ p_id @ ''_'' @ token) vm (cache st1)\<rparr>,
                    tr1 @ [ViewAllData p_id idp token, ViewData p_id token]))) \<and>
         (\<forall>apiData vm. AMerkfaehigkeit_processData eng apiData a Null = Some vm \<longrightarrow>
            js_prop vm ''score'' = JNum (Fin 0) \<and>
            result_field ''assessment''
              (AMerkfaehigkeit_processData eng apiData a (JObj [(''spseq_score'', JNum (Fin 0))])) =
            Some (js_prop vm ''assessment'')) \<and>
         (\<forall>apiData vm. MZeichnen_processData eng apiData a Null = Some vm \<longrightarrow>
            js_prop vm ''score'' = JNum (Fin 0) \<and>
            result_field ''assessment''
              (MZeichnen_processData eng apiData a (JObj [(''mz_score'', JNum (Fin 0))])) =
            Some (js_prop vm ''assessment''))"
proof (intro conjI allI impI)
  fix body
  assume "net (ViewAllData p_id idp token) = Some (Response False body)"
  then show "adapter_fetchData A eng net st =
      (getFallbackData A eng, st1, tr1 @ [ViewAllData p_id idp token])"
    using token p_id params miss auth idp
    by (simp add: adapter_fetchData_def basic_data_def)
next
  fix data d0 body
  assume h: "net (ViewAllData p_id idp token) = Some (Response True (Some data)) \<and>
      get_index data 0 = Some d0 \<and>
      net (ViewData p_id token) = Some (Response False body)"
  then have b: "basic_data net (ViewAllData p_id idp token) = Some data"
    by (simp add: basic_data_def)
  from h have t: "test_results_of (result_key A) (Response False body) = Some Null"
    by (simp add: test_results_of_def)
  from h b t show "adapter_fetchData A eng net st =
      (case processData A eng (js_or d0 data) a Null of
         None \<Rightarrow>
           (getFallbackData A eng, st1,
            tr1 @ [ViewAllData p_id idp token, ViewData p_id token])
       | Some vm \<Rightarrow>
           (vm,
            st1\<lparr>cache := AList.update (cache_prefix A @ p_id @ ''_'' @ token) vm (cache st1)\<rparr>,
            tr1 @ [ViewAllData p_id idp token, ViewData p_id token]))"
    using token p_id params miss auth idp
    by (simp add: adapter_fetchData_def Let_def split: option.splits)
next
  fix apiData vm
  assume "AMerkfaehigkeit_processData eng apiData a Null = Some vm"
  from AMerkfaehigkeit_null_result [OF this]
  show "js_prop vm ''score'' = JNum (Fin 0)"
    and "result_field ''assessment''
      (AMerkfaehigkeit_processData eng apiData a (JObj [(''spseq_score'', JNum (Fin 0))])) =
      Some (js_prop vm ''assessment'')"
    by simp_all
next
  fix apiData vm
  assume "MZeichnen_processData eng apiData a Null = Some vm"
  from MZeichnen_null_result [OF this]
  show "js_prop vm ''score'' = JNum (Fin 0)"
    and "result_field ''assessment''
      (MZeichnen_processData eng apiData a (JObj [(''mz_score'', JNum (Fin 0))])) =
      Some (js_prop vm ''assessment'')"
    by simp_all
qed

lemma page0_params:
  "url_token page0 = Some ''tok''" "url_p_id page0 = Some ''17''" "hasApiParams page0"
  "map_of (cache page0) (cache_prefix AMerkfaehigkeitApi @ ''17'' @ ''_'' @ ''tok'') = None"
  by (simp_all add: page0_def hasApiParams_def url_param_def)

lemma authenticate_test_fails:
  "authenticate net_test_fails page0 =
     (Some session0, page0\<lparr>authData := session0\<rparr>, [Authenticate ''tok'' ''17''])"
  by (simp add: authenticate_def page0_def hasApiParams_def url_param_def auth_record_def
      auth_response_def get_def session0_def)

lemma authenticate_basic_fails:
  "authenticate net_basic_fails page0 =
     (Some session0, page0\<lparr>authData := session0\<rparr>, [Authenticate ''tok'' ''17''])"
  by (simp add: authenticate_def page0_def hasApiParams_def url_param_def auth_record_def
      auth_response_def get_def session0_def)

lemma session0_id: "id_param_of engine0 session0 = Some (Einrichtung_id ''15'')"
  by code_simp

lemma processed_without_result:
  "result_field ''assessment''
     (AMerkfaehigkeit_processData engine0 (JObj [(''Vorname'', JStr ''Ada'')]) session0 Null) =
     Some (JStr ''a'')"
  by code_simp

theorem fetchData_failed_calls_witness:
  "url_token page0 = Some ''tok'' \<and> url_p_id page0 = Some ''17'' \<and> hasApiParams page0 \<and>
   map_of (cache page0) (cache_prefix AMerkfaehigkeitApi @ ''17'' @ ''_'' @ ''tok'') = None \<and>
   authenticate net_basic_fails page0 =
     (Some session0, page0\<lparr>authData := session0\<rparr>, [Authenticate ''tok'' ''17'']) \<and>
   authenticate net_test_fails page0 =
     (Some session0, page0\<lparr>authData := session0\<rparr>, [Authenticate ''tok'' ''17'']) \<and>
   id_param_of engine0 session0 = Some (Einrichtung_id ''15'') \<and>
   net_basic_fails (ViewAllData ''17'' (Einrichtung_id ''15'') ''tok'') =
     Some (Response False None) \<and>
   net_test_fails (ViewAllData ''17'' (Einrichtung_id ''15'') ''tok'') =
     Some (Response True (Some (JArr [JObj [(''Vorname'', JStr ''Ada'')]]))) \<and>
   net_test_fails (ViewData ''17'' ''tok'') = Some (Response False None) \<and>
   adapter_fetchData AMerkfaehigkeitApi engine0 net_basic_fails page0 =
     (AMerkfaehigkeit_getFallbackData engine0, page0\<lparr>authData := session0\<rparr>,
      [Authenticate ''tok'' ''17'', ViewAllData ''17'' (Einrichtung_id ''15'') ''tok'']) \<and>
   (\<exists>vm. AMerkfaehigkeit_processData engine0 (JObj [(''Vorname'', JStr ''Ada'')]) session0 Null =
           Some vm \<and>
         adapter_fetchData AMerkfaehigkeitApi engine0 net_test_fails page0 =
           (vm,
            page0\<lparr>authData := session0, cache := [(''amerkfaehigkeit_17_tok'', vm)]\<rparr>,
            [Authenticate ''tok'' ''17'', ViewAllData ''17'' (Einrichtung_id ''15'') ''tok'',
             ViewData ''17'' ''tok'']) \<and>
         js_prop vm ''score'' = JNum (Fin 0) \<and>
         js_prop vm ''assessment'' = JStr ''a'')"
proof -
  note p = page0_params
  note T1 = fetchData_failed_calls
    [OF p(1) p(2) p(3) p(4) authenticate_basic_fails session0_id]
  note T2 = fetchData_failed_calls
    [OF p(1) p(2) p(3) p(4) authenticate_test_fails session0_id]
  have b: "net_basic_fails (ViewAllData ''17'' (Einrichtung_id ''15'') ''tok'') =
      Some (Response False None)"
    by simp
  have t: "net_test_fails (ViewAllData ''17'' (Einrichtung_id ''15'') ''tok'') =
      Some (Response True (Some (JArr [JObj [(''Vorname'', JStr ''Ada'')]])))"
    "net_test_fails (ViewData ''17'' ''tok'') = Some (Response False None)"
    by simp_all
  from T1 b have basic: "adapter_fetchData AMerkfaehigkeitApi engine0 net_basic_fails page0 =
     (AMerkfaehigkeit_getFallbackData engine0, page0\<lparr>authData := session0\<rparr>,
      [Authenticate ''tok'' ''17'', ViewAllData ''17'' (Einrichtung_id ''15'') ''tok''])"
    by (simp add: AMerkfaehigkeitApi_def)
  from processed_without_result obtain vm where
    vm: "AMerkfaehigkeit_processData engine0 (JObj [(''Vorname'', JStr ''Ada'')]) session0 Null =
           Some vm"
    and a: "js_prop vm ''assessment'' = JStr ''a''"
    by (auto simp: result_field_def split: option.splits)
  have g: "get_index (JArr [JObj [(''Vorname'', JStr ''Ada'')]]) 0 =
      Some (JObj [(''Vorname'', JStr ''Ada'')])"
    by (simp add: get_index_def)
  from T2 have "net_test_fails (ViewAllData ''17'' (Einrichtung_id ''15'') ''tok'') =
        Some (Response True (Some (JArr [JObj [(''Vorname'', JStr ''Ada'')]]))) \<and>
      get_index (JArr [JObj [(''Vorname'', JStr ''Ada'')]]) 0 =
        Some (JObj [(''Vorname'', JStr ''Ada'')]) \<and>
      net_test_fails (ViewData ''17'' ''tok'') = Some (Response False None) \<longrightarrow>
      adapter_fetchData AMerkfaehigkeitApi engine0 net_test_fails page0 =
        (case processData AMerkfaehigkeitApi engine0
                (js_or (JObj [(''Vorname'', JStr ''Ada'')])
                   (JArr [JObj [(''Vorname'', JStr ''Ada'')]])) session0 Null of
           None \<Rightarrow>
             (getFallbackData AMerkfaehigkeitApi engine0, page0\<lparr>authData := session0\<rparr>,
              [Authenticate ''tok'' ''17''] @
              [ViewAllData ''17'' (Einrichtung_id ''15'') ''tok'', ViewData ''17'' ''tok''])
         | Some vm \<Rightarrow>
             (vm,
              page0\<lparr>authData := session0\<rparr>
                \<lparr>cache := AList.update (cache_prefix AMerkfaehigkeitApi @ ''17'' @ ''_'' @ ''tok'')
                            vm (cache (page0\<lparr>authData := session0\<rparr>))\<rparr>,
              [Authenticate ''tok'' ''17''] @
              [ViewAllData ''17'' (Einrichtung_id ''15'') ''tok'', ViewData ''17'' ''tok'']))"
    by blast
  with t g vm have test: "adapter_fetchData AMerkfaehigkeitApi engine0 net_test_fails page0 =
           (vm,
            page0\<lparr>authData := session0, cache := [(''amerkfaehigkeit_17_tok'', vm)]\<rparr>,
            [Authenticate ''tok'' ''17'', ViewAllData ''17'' (Einrichtung_id ''15'') ''tok'',
             ViewData ''17'' ''tok''])"
    by (simp add: AMerkfaehigkeitApi_def js_or_def page0_def)
  from T2 vm have s: "js_prop vm ''score'' = JNum (Fin 0)"
    by blast
  from p authenticate_basic_fails authenticate_test_fails session0_id b t basic vm test s a
  show ?thesis
    by (intro conjI exI [of _ vm])
qed

text \<open>
  A page whose test-result call answers with a status that is not \<open>ok\<close>, with thresholds
  whose level 1 band (0 to 3, described \<open>a\<close>) contains 0: the record that
  \<open>fetchData\<close> returns has the assessment \<open>a\<close>, not the empty one.
\<close>

theorem test_failure_assessment:
  "js_prop (fst (adapter_fetchData AMerkfaehigkeitApi engine0 net_test_fails page0))
     ''assessment'' = JStr ''a'' \<and>
   js_prop (fst (adapter_fetchData AMerkfaehigkeitApi engine0 net_test_fails page0))
     ''testResults'' = Null \<and>
   net_test_fails (ViewData ''17'' ''tok'') = Some (Response False None)"
  by code_simp

subsection \<open>The raw record spread last\<close>

text \<open>
  C10. \<open>processApiData\<close> spreads the raw record last: whenever it returns a record for a
  raw object, every key of the raw object is a key of the record, and the record carries
  the raw value under each of them, also under the keys that the normalisation computes
  (\<open>name\<close>, \<open>birthdate\<close>, \<open>min\<close>, \<open>max\<close>, \<open>score\<close>, \<open>colors\<close>, \<open>ranges\<close>, \<open>assessment\<close>,
  the labels and the others).
\<close>

theorem processApiData_raw_wins:
  assumes "processApiData eng (JObj kvs) a = Some out"
  shows "\<exists>fields. out = JObj fields \<and>
           (\<forall>k\<in>fst ` set kvs. map_of fields k = map_of kvs k) \<and>
           fst ` set kvs \<subseteq> fst ` set fields"
proof -
  from assms obtain base where out: "out = JObj (spread base kvs)"
    by (auto simp: processApiData_def Let_def own_entries_def
        split: Option.bind_splits prod.splits)
  have "map_of (spread base kvs) k = map_of kvs k" if "k \<in> fst ` set kvs" for k
  proof -
    from that have "k \<in> dom (map_of kvs)"
      by (simp add: dom_map_of_conv_image_fst)
    then show ?thesis
      by (auto simp: map_of_spread map_add_dom_app_simps)
  qed
  moreover have "fst ` set kvs \<subseteq> fst ` set (spread base kvs)"
    by (simp add: keys_spread)
  ultimately show ?thesis
    using out by blast
qed

text \<open>
  It does return a record when the eight fields it converts to a string or a number are
  primitive values (or absent).
\<close>

lemma Number_js_primitive: "primitive v \<Longrightarrow> \<exists>n. Number_js eng v = Some n"
  by (cases v) (simp_all add: primitive_def)

lemma ToString_primitive: "primitive v \<Longrightarrow> \<exists>s. ToString eng v = Some s"
  by (cases v) (simp_all add: primitive_def)

lemma primitive_or: "primitive v \<Longrightarrow> primitive (js_or v (JStr s))"
  by (simp add: js_or_def primitive_def)

lemma full_name_primitive:
  assumes "primitive (js_prop (JObj kvs) ''Vorname'')"
    and "primitive (js_prop (JObj kvs) ''Nachname'')"
  shows "\<exists>n. full_name eng (JObj kvs) = Some n"
proof -
  from ToString_primitive [OF primitive_or [OF assms(1)]] obtain a where
    "ToString eng (js_or (js_prop (JObj kvs) ''Vorname'') (JStr '''')) = Some a"
    by blast
  moreover from ToString_primitive [OF primitive_or [OF assms(2)]] obtain b where
    "ToString eng (js_or (js_prop (JObj kvs) ''Nachname'') (JStr '''')) = Some b"
    by blast
  ultimately show ?thesis
    by (simp add: full_name_def get_def)
qed

lemma processApiData_returns:
  assumes "list_all (\<lambda>k. primitive (js_prop (JObj kvs) k))
             [''Vorname'', ''Nachname'', ''min'', ''max'', ''score'', ''subsplit'', ''submin'',
              ''submax'']"
  shows "\<exists>out. processApiData eng (JObj kvs) a = Some out"
proof -
  from assms have v: "primitive (js_prop (JObj kvs) ''Vorname'')"
    and n: "primitive (js_prop (JObj kvs) ''Nachname'')"
    and p: "primitive (js_prop (JObj kvs) ''min'')" "primitive (js_prop (JObj kvs) ''max'')"
      "primitive (js_prop (JObj kvs) ''score'')" "primitive (js_prop (JObj kvs) ''subsplit'')"
      "primitive (js_prop (JObj kvs) ''submin'')" "primitive (js_prop (JObj kvs) ''submax'')"
    by simp_all
  from full_name_primitive [OF v n] obtain name where
    name: "full_name eng (JObj kvs) = Some name"
    by blast
  from Number_js_primitive [OF p(1)] obtain mn where
    mn: "Number_js eng (js_prop (JObj kvs) ''min'') = Some mn" by blast
  from Number_js_primitive [OF p(2)] obtain mx where
    mx: "Number_js eng (js_prop (JObj kvs) ''max'') = Some mx" by blast
  from Number_js_primitive [OF p(3)] obtain sc where
    sc: "Number_js eng (js_prop (JObj kvs) ''score'') = Some sc" by blast
  from Number_js_primitive [OF p(4)] obtain ss where
    ss: "Number_js eng (js_prop (JObj kvs) ''subsplit'') = Some ss" by blast
  from Number_js_primitive [OF p(5)] obtain smn where
    smn: "Number_js eng (js_prop (JObj kvs) ''submin'') = Some smn" by blast
  from Number_js_primitive [OF p(6)] obtain smx where
    smx: "Number_js eng (js_prop (JObj kvs) ''submax'') = Some smx" by blast
  from name mn mx sc ss smn smx show ?thesis
    by (simp add: processApiData_def Let_def split: prod.splits)
qed

lemma raw_processed:
  "result_field ''name'' (processApiData engine0 raw_record Null) = Some (JStr ''raw'') \<and>
   result_field ''min'' (processApiData engine0 raw_record Null) = Some (JStr ''abc'') \<and>
   result_field ''zzz'' (processApiData engine0 raw_record Null) = Some Null \<and>
   result_field ''max'' (processApiData engine0 raw_record Null) = Some (JNum (Fin 13))"
  by code_simp

theorem processApiData_raw_wins_witness:
  "\<exists>out fields.
     processApiData engine0 (JObj [(''name'', JStr ''raw''), (''min'', JStr ''abc''), (''zzz'', Null)])
       Null = Some out \<and>
     out = JObj fields \<and>
     map_of fields ''name'' = Some (JStr ''raw'') \<and>
     map_of fields ''min'' = Some (JStr ''abc'') \<and>
     map_of fields ''zzz'' = Some Null \<and>
     {''name'', ''min'', ''zzz''} \<subseteq> fst ` set fields"
proof -
  from raw_processed obtain out where
    out: "processApiData engine0
            (JObj [(''name'', JStr ''raw''), (''min'', JStr ''abc''), (''zzz'', Null)]) Null =
          Some out"
    by (auto simp: result_field_def raw_record_def split: option.splits)
  from processApiData_raw_wins [OF out] obtain fields where
    f: "out = JObj fields"
    and m: "\<forall>k\<in>fst ` set [(''name'', JStr ''raw''), (''min'', JStr ''abc''), (''zzz'', Null)].
              map_of fields k =
              map_of [(''name'', JStr ''raw''), (''min'', JStr ''abc''), (''zzz'', Null)] k"
    and s: "fst ` set [(''name'', JStr ''raw''), (''min'', JStr ''abc''), (''zzz'', Null)]
              \<subseteq> fst ` set fields"
    by blast
  from m have "map_of fields ''name'' = Some (JStr ''raw'')"
    and "map_of fields ''min'' = Some (JStr ''abc'')"
    and "map_of fields ''zzz'' = Some Null"
    by simp_all
  with out f s show ?thesis
    by auto
qed

subsection \<open>The classifier takes the first band in level order\<close>

text \<open>
  C3. In the record that aMerkfaehigkeit assembles, when at least six thresholds match
  and their levels are finite numbers: the classifier works on the thresholds in
  ascending level order and takes the first one whose inclusive band contains the score.
  No threshold before it contains the score, and every matching threshold whose band
  contains the score has a level at least as large, so of two overlapping bands the one
  with the smaller level gives the assessment. When no band contains the score the
  assessment is empty.
\<close>

theorem classifier_first_match:
  assumes vm: "AMerkfaehigkeit_processData eng apiData a t = Some vm"
    and ths: "js_prop (js_prop a ''parameters'') ''edulog_thresholds'' = JArr ts"
    and m: "filter_category AM_category ts = Some matching"
    and six: "6 \<le> length matching"
    and fin: "list_all (finite_level eng) matching"
  shows "\<exists>sortedThresholds score.
           js_sort eng (level_cmp eng) matching = Some sortedThresholds \<and>
           set sortedThresholds = set matching \<and>
           sorted_wrt (level_le eng) sortedThresholds \<and>
           score_of eng ''spseq_score'' (default_null t) = Some score \<and>
           ((\<exists>i<length sortedThresholds.
               band_contains eng score (sortedThresholds ! i) \<and>
               (\<forall>j<i. \<not> band_contains eng score (sortedThresholds ! j)) \<and>
               (\<forall>u\<in>set matching. band_contains eng score u \<longrightarrow>
                  level_le eng (sortedThresholds ! i) u) \<and>
               js_prop vm ''assessment'' = assessment_of (Some (sortedThresholds ! i)))
            \<or> ((\<forall>u\<in>set matching. \<not> band_contains eng score u) \<and>
                js_prop vm ''assessment'' = JStr ''''))"
proof -
  from AMerkfaehigkeit_fields [OF vm] obtain colors sc where
    sb: "scoring_block eng AM_category ''spseq_score'' a (default_null t) = Some (colors, sc)"
    and f: "js_prop vm ''assessment'' = assessment_v sc"
    by (auto simp: default_null_obj [OF ths])
  from scoring_block_thresholds [OF sb ths] have
    r: "resolve_thresholds eng AM_category ''spseq_score'' (JArr ts) (default_null t) = Some sc"
    by simp
  from first_match_resolved [OF r m six fin] show ?thesis
    by (simp add: f)
qed

lemma overlapping_AM_finite:
  "list_all (finite_level engine0) (overlapping AM_category)"
  by (simp add: overlapping_def threshold_def finite_level_def level_of_def)

lemma overlapping_AM_sorted:
  "js_sort engine0 (level_cmp engine0) (overlapping AM_category) =
     Some [threshold AM_category 1 0 3 ''a'', threshold AM_category 2 4 6 ''b'',
           threshold AM_category 3 5 8 ''c'', threshold AM_category 4 9 10 ''d'',
           threshold AM_category 5 11 11 ''e'', threshold AM_category 6 12 13 ''f'']"
  by code_simp

lemma AM_five_processed:
  "result_field ''assessment''
     (AMerkfaehigkeit_processData engine0 (JObj []) (session Null (overlapping AM_category))
        (JObj [(''spseq_score'', JNum (Fin 5))])) = Some (JStr ''b'')"
  by code_simp

text \<open>
  The thresholds \<open>overlapping\<close> with the score 5: the bands of level 2 (4 to 6) and of
  level 3 (5 to 8) both contain it, and the assessment is the \<open>b\<close> of level 2.
\<close>

theorem classifier_first_match_witness:
  "(\<exists>vm. AMerkfaehigkeit_processData engine0 (JObj []) (session Null (overlapping AM_category))
            (JObj [(''spseq_score'', JNum (Fin 5))]) = Some vm) \<and>
   js_prop (js_prop (session Null (overlapping AM_category)) ''parameters'') ''edulog_thresholds'' =
     JArr (overlapping AM_category) \<and>
   filter_category AM_category (overlapping AM_category) = Some (overlapping AM_category) \<and>
   6 \<le> length (overlapping AM_category) \<and>
   list_all (finite_level engine0) (overlapping AM_category) \<and>
   band_contains engine0 (Fin 5) (threshold AM_category 2 4 6 ''b'') \<and>
   band_contains engine0 (Fin 5) (threshold AM_category 3 5 8 ''c'') \<and>
   result_field ''assessment''
     (AMerkfaehigkeit_processData engine0 (JObj []) (session Null (overlapping AM_category))
        (JObj [(''spseq_score'', JNum (Fin 5))])) = Some (JStr ''b'') \<and>
   (\<exists>sortedThresholds i.
      js_sort engine0 (level_cmp engine0) (overlapping AM_category) = Some sortedThresholds \<and>
      i < length sortedThresholds \<and>
      band_contains engine0 (Fin 5) (sortedThresholds ! i) \<and>
      level_le engine0 (sortedThresholds ! i) (threshold AM_category 3 5 8 ''c'') \<and>
      assessment_of (Some (sortedThresholds ! i)) = JStr ''b'')"
proof -
  from AM_five_processed obtain vm where
    vm: "AMerkfaehigkeit_processData engine0 (JObj []) (session Null (overlapping AM_category))
           (JObj [(''spseq_score'', JNum (Fin 5))]) = Some vm"
    and a: "js_prop vm ''assessment'' = JStr ''b''"
    by (auto simp: result_field_def split: option.splits)
  have ths: "js_prop (js_prop (session Null (overlapping AM_category)) ''parameters'')
               ''edulog_thresholds'' = JArr (overlapping AM_category)"
    by (simp add: session_def)
  note m = overlapping_AM_filter and fin = overlapping_AM_finite
  have six: "6 \<le> length (overlapping AM_category)"
    by (simp add: overlapping_def)
  have c2: "band_contains engine0 (Fin 5) (threshold AM_category 2 4 6 ''b'')"
    and c3: "band_contains engine0 (Fin 5) (threshold AM_category 3 5 8 ''c'')"
    by (simp_all add: band_contains_def band_def threshold_def num_or0_def in_band_def)
  have in3: "threshold AM_category 3 5 8 ''c'' \<in> set (overlapping AM_category)"
    by (simp add: overlapping_def)
  have sc: "score_of engine0 ''spseq_score'' (default_null (JObj [(''spseq_score'', JNum (Fin 5))]))
      = Some (Fin 5)"
    by (simp add: score_of_def and_prop_def default_null_def)
  from classifier_first_match [OF vm ths m six fin] obtain sorted score where
    s: "js_sort engine0 (level_cmp engine0) (overlapping AM_category) = Some sorted"
    and sc': "score_of engine0 ''spseq_score''
                (default_null (JObj [(''spseq_score'', JNum (Fin 5))])) = Some score"
    and d: "(\<exists>i<length sorted.
               band_contains engine0 score (sorted ! i) \<and>
               (\<forall>j<i. \<not> band_contains engine0 score (sorted ! j)) \<and>
               (\<forall>u\<in>set (overlapping AM_category). band_contains engine0 score u \<longrightarrow>
                  level_le engine0 (sorted ! i) u) \<and>
               js_prop vm ''assessment'' = assessment_of (Some (sorted ! i)))
            \<or> ((\<forall>u\<in>set (overlapping AM_category). \<not> band_contains engine0 score u) \<and>
                js_prop vm ''assessment'' = JStr '''')"
    by blast
  from sc sc' have score: "score = Fin 5" by simp
  from d score c3 in3 a obtain i where
    "i < length sorted" "band_contains engine0 (Fin 5) (sorted ! i)"
    "level_le engine0 (sorted ! i) (threshold AM_category 3 5 8 ''c'')"
    "assessment_of (Some (sorted ! i)) = JStr ''b''"
    by auto
  with s have "\<exists>sortedThresholds i.
      js_sort engine0 (level_cmp engine0) (overlapping AM_category) = Some sortedThresholds \<and>
      i < length sortedThresholds \<and>
      band_contains engine0 (Fin 5) (sortedThresholds ! i) \<and>
      level_le engine0 (sortedThresholds ! i) (threshold AM_category 3 5 8 ''c'') \<and>
      assessment_of (Some (sortedThresholds ! i)) = JStr ''b''"
    by blast
  with vm ths m six fin c2 c3 a show ?thesis
    by (simp add: result_field_def)
qed

subsection \<open>The same for mZeichnen and figurGrundS\<close>

text \<open>
  The three adapters share the scoring block, so what was shown of the record of
  aMerkfaehigkeit holds of the other two records. First the statements on the block.
\<close>

lemma block_insufficient:
  assumes sb: "scoring_block eng cat key a t = Some (colors, sc)"
    and ths: "js_prop (js_prop a ''parameters'') ''edulog_thresholds'' = JArr ts"
    and m: "filter_category cat ts = Some matching"
    and few: "length matching < 6"
  shows "sc = default_scoring \<and>
         parameters_colors (js_prop (js_prop a ''parameters'') ''colors'') = Some colors"
proof -
  from scoring_block_thresholds [OF sb ths] have
    c: "parameters_colors (js_prop (js_prop a ''parameters'') ''colors'') = Some colors"
    and r: "resolve_thresholds eng cat key (JArr ts) t = Some sc"
    by simp_all
  from resolve_insufficient [OF r m few] c show ?thesis
    by simp
qed

lemma block_first_match:
  assumes sb: "scoring_block eng cat key a t = Some (colors, sc)"
    and ths: "js_prop (js_prop a ''parameters'') ''edulog_thresholds'' = JArr ts"
    and m: "filter_category cat ts = Some matching"
    and six: "6 \<le> length matching"
    and fin: "list_all (finite_level eng) matching"
  shows "\<exists>sortedThresholds score.
           js_sort eng (level_cmp eng) matching = Some sortedThresholds \<and>
           set sortedThresholds = set matching \<and>
           sorted_wrt (level_le eng) sortedThresholds \<and>
           score_of eng key t = Some score \<and>
           ((\<exists>i<length sortedThresholds.
               band_contains eng score (sortedThresholds ! i) \<and>
               (\<forall>j<i. \<not> band_contains eng score (sortedThresholds ! j)) \<and>
               (\<forall>u\<in>set matching. band_contains eng score u \<longrightarrow>
                  level_le eng (sortedThresholds ! i) u) \<and>
               assessment_v sc = assessment_of (Some (sortedThresholds ! i)))
            \<or> ((\<forall>u\<in>set matching. \<not> band_contains eng score u) \<and>
                assessment_v sc = JStr ''''))"
proof -
  from scoring_block_thresholds [OF sb ths] have
    "resolve_thresholds eng cat key (JArr ts) t = Some sc"
    by simp
  from first_match_resolved [OF this m six fin] show ?thesis .
qed

lemma block_score:
  assumes sb: "scoring_block eng cat key a t = Some (colors, sc)"
    and ths: "js_prop (js_prop a ''parameters'') ''edulog_thresholds'' = JArr ts"
    and m: "filter_category cat ts = Some matching"
    and six: "6 \<le> length matching"
  shows "\<exists>sortedThresholds score mt.
           js_sort eng (level_cmp eng) matching = Some sortedThresholds \<and>
           (if truthy (js_prop t key) then Number_js eng (js_prop t key) = Some score
            else score = Fin 0) \<and>
           find_band eng score sortedThresholds = Some mt \<and>
           assessment_v sc = assessment_of mt \<and>
           (score = NaN \<longrightarrow> assessment_v sc = JStr '''')"
proof -
  from scoring_block_thresholds [OF sb ths] have
    r: "resolve_thresholds eng cat key (JArr ts) t = Some sc"
    by simp
  from resolve_sufficient [OF r m six] obtain sorted score mt where
    sorted: "js_sort eng (level_cmp eng) matching = Some sorted"
    and score: "score_of eng key t = Some score"
    and mt: "find_band eng score sorted = Some mt"
    and a: "assessment_v sc = assessment_of mt"
    by blast
  from score have sc_if: "if truthy (js_prop t key)
            then Number_js eng (js_prop t key) = Some score else score = Fin 0"
    by (auto simp: score_of_cases split: if_splits)
  have "score = NaN \<longrightarrow> assessment_v sc = JStr ''''"
    using mt a by (auto dest: find_band_NaN simp: assessment_of_def)
  with sorted sc_if mt a show ?thesis
    by auto
qed

text \<open>Then the fields of the record of figurGrundS: the item keys override none of them.\<close>

lemma item_keys_fresh:
  assumes "itemColors_of eng t = Some ic" and "k \<notin> item_keys"
  shows "map_of ic k = None"
proof -
  from itemColors_keys [OF assms(1)] assms(2) have "k \<notin> fst ` set ic"
    by (auto split: if_splits)
  then show ?thesis
    by (simp add: map_of_eq_None_iff)
qed

lemma FigurGrundS_fields:
  assumes "FigurGrundS_processData eng apiData a t = Some vm"
  shows "\<exists>colors sc.
           scoring_block eng ''Figur Grund Sehen'' ''fgs_score'' (default_null a) (default_null t) =
             Some (colors, sc) \<and>
           js_prop vm ''min'' = min_v sc \<and> js_prop vm ''max'' = max_v sc \<and>
           js_prop vm ''ranges'' = ranges_v sc \<and> js_prop vm ''colors'' = colors \<and>
           js_prop vm ''assessment'' = assessment_v sc \<and>
           js_prop vm ''score'' = score_field ''fgs_score'' (default_null t)"
proof -
  have fresh: "''min'' \<notin> item_keys" "''max'' \<notin> item_keys" "''ranges'' \<notin> item_keys"
    "''colors'' \<notin> item_keys" "''assessment'' \<notin> item_keys" "''score'' \<notin> item_keys"
    by (simp_all add: item_keys_def)
  from assms show ?thesis
    by (auto simp: FigurGrundS_processData_def Let_def map_of_spread map_add_def
        item_keys_fresh [OF _ fresh(1)] item_keys_fresh [OF _ fresh(2)]
        item_keys_fresh [OF _ fresh(3)] item_keys_fresh [OF _ fresh(4)]
        item_keys_fresh [OF _ fresh(5)] item_keys_fresh [OF _ fresh(6)]
        split: Option.bind_splits prod.splits)
qed

text \<open>Fewer than six matching thresholds, in mZeichnen and in figurGrundS.\<close>

lemma insufficient_thresholds_MZeichnen:
  assumes vm: "MZeichnen_processData eng apiData a t = Some vm"
    and ths: "js_prop (js_prop a ''parameters'') ''edulog_thresholds'' = JArr ts"
    and m: "filter_category ''Mensch Zeichnen'' ts = Some matching"
    and few: "length matching < 6"
  shows "js_prop vm ''min'' = JNum (Fin 0) \<and> js_prop vm ''max'' = JNum (Fin 13) \<and>
         js_prop vm ''ranges'' = JArr [] \<and> js_prop vm ''assessment'' = JStr '''' \<and>
         parameters_colors (js_prop (js_prop a ''parameters'') ''colors'') =
           Some (js_prop vm ''colors'')"
proof -
  from MZeichnen_fields [OF vm] obtain colors sc where
    sb: "scoring_block eng ''Mensch Zeichnen'' ''mz_score'' a (default_null t) = Some (colors, sc)"
    and f: "js_prop vm ''min'' = min_v sc" "js_prop vm ''max'' = max_v sc"
      "js_prop vm ''ranges'' = ranges_v sc" "js_prop vm ''colors'' = colors"
      "js_prop vm ''assessment'' = assessment_v sc"
    by (auto simp: default_null_obj [OF ths])
  from block_insufficient [OF sb ths m few] f show ?thesis
    by (simp add: default_scoring_def)
qed

lemma insufficient_thresholds_FigurGrundS:
  assumes vm: "FigurGrundS_processData eng apiData a t = Some vm"
    and ths: "js_prop (js_prop a ''parameters'') ''edulog_thresholds'' = JArr ts"
    and m: "filter_category ''Figur Grund Sehen'' ts = Some matching"
    and few: "length matching < 6"
  shows "js_prop vm ''min'' = JNum (Fin 0) \<and> js_prop vm ''max'' = JNum (Fin 13) \<and>
         js_prop vm ''ranges'' = JArr [] \<and> js_prop vm ''assessment'' = JStr '''' \<and>
         parameters_colors (js_prop (js_prop a ''parameters'') ''colors'') =
           Some (js_prop vm ''colors'')"
proof -
  from FigurGrundS_fields [OF vm] obtain colors sc where
    sb: "scoring_block eng ''Figur Grund Sehen'' ''fgs_score'' a (default_null t) =
           Some (colors, sc)"
    and f: "js_prop vm ''min'' = min_v sc" "js_prop vm ''max'' = max_v sc"
      "js_prop vm ''ranges'' = ranges_v sc" "js_prop vm ''colors'' = colors"
      "js_prop vm ''assessment'' = assessment_v sc"
    by (auto simp: default_null_obj [OF ths])
  from block_insufficient [OF sb ths m few] f show ?thesis
    by (simp add: default_scoring_def)
qed

text \<open>
  The assessment of both records is that of the block, so the first band in level order
  and the conversion of the score are as stated on the block.
\<close>

lemma MZeichnen_block:
  assumes vm: "MZeichnen_processData eng apiData a t = Some vm"
    and ths: "js_prop (js_prop a ''parameters'') ''edulog_thresholds'' = JArr ts"
  shows "\<exists>colors sc.
           scoring_block eng ''Mensch Zeichnen'' ''mz_score'' a (default_null t) =
             Some (colors, sc) \<and>
           js_prop vm ''assessment'' = assessment_v sc"
  using MZeichnen_fields [OF vm] by (auto simp: default_null_obj [OF ths])

lemma FigurGrundS_block:
  assumes vm: "FigurGrundS_processData eng apiData a t = Some vm"
    and ths: "js_prop (js_prop a ''parameters'') ''edulog_thresholds'' = JArr ts"
  shows "\<exists>colors sc.
           scoring_block eng ''Figur Grund Sehen'' ''fgs_score'' a (default_null t) =
             Some (colors, sc) \<and>
           js_prop vm ''assessment'' = assessment_v sc"
  using FigurGrundS_fields [OF vm] by (auto simp: default_null_obj [OF ths])

end
